theory Spec2Isabelle
  imports Main
begin

section \<open>Data model of \<^verbatim>\<open>scripts/gen.py\<close>\<close>

text \<open>
  The generator works on parse trees of the lark library. A tree is either a token
  (fields \<^verbatim>\<open>type\<close>, \<^verbatim>\<open>value\<close>, \<^verbatim>\<open>column\<close>, \<^verbatim>\<open>end_column\<close>; columns are
  1-based) or a node with a rule name (\<^verbatim>\<open>data\<close>) and a list of children. The two
  parsers of the script (\<^verbatim>\<open>_PARSER\<close>, \<^verbatim>\<open>_XPARSER\<close>) belong to the library, not to
  the script: every function that calls one of them takes it as its first argument(s),
  a function from the text to the tree, with \<open>None\<close> for a parse failure.

  Every Python exception is a value of \<open>error\<close>; a function that can raise returns
  \<open>error + 'a\<close>.
\<close>

datatype error = AssertionError | IndexError | AttributeError | RuntimeError | TypeError | ParseError

record token =
  tok_type :: string
  tok_value :: string
  column :: int
  end_column :: int

datatype tree = Token token | Tree string "tree list"

type_synonym parser = "string \<Rightarrow> tree option"

text \<open>Sequencing of calls that may raise.\<close>

definition bind :: "error + 'a \<Rightarrow> ('a \<Rightarrow> error + 'b) \<Rightarrow> error + 'b" where
  "bind m f = (case m of Inl e \<Rightarrow> Inl e | Inr v \<Rightarrow> f v)"

text \<open>
  Python's \<^verbatim>\<open>s[i:j]\<close> on a string, for all integers: a negative index counts from the
  end, and both indices are clamped to the string.
\<close>

definition py_index :: "nat \<Rightarrow> int \<Rightarrow> nat" where
  "py_index n i = (if i < 0 then nat (int n + i) else min n (nat i))"

definition py_slice :: "string \<Rightarrow> int \<Rightarrow> int \<Rightarrow> string" where
  "py_slice s i j = take (py_index (length s) j - py_index (length s) i) (drop (py_index (length s) i) s)"

text \<open>\<^verbatim>\<open>'{}'.format(n)\<close> for a non-negative integer: its decimal digits.\<close>

definition digit_char :: "nat \<Rightarrow> char" where
  "digit_char d = ''0123456789'' ! d"

function str_nat :: "nat \<Rightarrow> string" where
  "str_nat n = (if n < 10 then [digit_char n] else str_nat (n div 10) @ [digit_char (n mod 10)])"
  by pat_completeness auto
termination
  by (relation "measure id") auto

declare str_nat.simps [simp del]

text \<open>\<^verbatim>\<open>'{}'.format(x)\<close> where \<^verbatim>\<open>x\<close> is a string or \<^verbatim>\<open>None\<close>.\<close>

definition str_opt :: "string option \<Rightarrow> string" where
  "str_opt x = (case x of None \<Rightarrow> ''None'' | Some s \<Rightarrow> s)"

text \<open>\<^verbatim>\<open>s.find(sub) >= 0\<close>: \<^verbatim>\<open>sub\<close> occurs in \<^verbatim>\<open>s\<close>.\<close>

fun is_prefix :: "string \<Rightarrow> string \<Rightarrow> bool" where
  "is_prefix [] s = True"
| "is_prefix (c # cs) [] = False"
| "is_prefix (c # cs) (d # ds) = (c = d \<and> is_prefix cs ds)"

fun str_contains :: "string \<Rightarrow> string \<Rightarrow> bool" where
  "str_contains [] sub = (sub = [])"
| "str_contains (c # cs) sub = (is_prefix sub (c # cs) \<or> str_contains cs sub)"

section \<open>Static tables\<close>

definition FN_BLACKLIST :: "string list" where
  "FN_BLACKLIST = [''toBackend'', ''toScalarType'', ''backward'', ''set_data'',
     ''tensorFromBlob'', ''tensorWithAllocator'', ''storageFromBlob'',
     ''storageWithAllocator'', ''unsafeStorageFromTH'', ''unsafeTensorFromTH'',
     ''ones_like'', ''zeros_like'']"

definition TYPE_NSMAP :: "string \<rightharpoonup> string" where
  "TYPE_NSMAP = map_of [
     (''Tensor'', ''at::Tensor''),
     (''TensorList'', ''at::TensorList''),
     (''Scalar'', ''at::Scalar''),
     (''Storage'', ''at::Storage''),
     (''IntList'', ''at::IntList''),
     (''IntArrayRef'', ''at::IntArrayRef''),
     (''Generator'', ''at::Generator''),
     (''ScalarType'', ''at::ScalarType''),
     (''TensorOptions'', ''at::TensorOptions''),
     (''SparseTensorRef'', ''at::SparseTensorRef''),
     (''Device'', ''c10::Device''),
     (''optional'', ''at::optional'')]"

definition XLA_FUNCTIONS :: "string \<rightharpoonup> string" where
  "XLA_FUNCTIONS = Map.empty"

definition CTOR_FUNCTIONS :: "string \<rightharpoonup> string" where
  "CTOR_FUNCTIONS = map_of [
     (''empty'', ''.device(at::DeviceType::CPU)''),
     (''linspace'', ''.device(at::DeviceType::CPU)''),
     (''logspace'', ''.device(at::DeviceType::CPU)''),
     (''ones'', ''.device(at::DeviceType::CPU)''),
     (''randn'', ''.device(at::DeviceType::CPU)''),
     (''zeros'', ''.device(at::DeviceType::CPU)'')]"

record FuncOpts =
  ref_param :: "string option"

definition FUNCTION_OPTIONS :: "string \<rightharpoonup> FuncOpts" where
  "FUNCTION_OPTIONS = map_of [
     (''to(Tensor, TensorOptions, bool, bool) -> Tensor'', \<lparr>ref_param = Some ''options''\<rparr>),
     (''to(Tensor, Device, ScalarType, bool, bool) -> Tensor'', \<lparr>ref_param = Some ''device''\<rparr>),
     (''to(Tensor, Tensor, bool, bool) -> Tensor'', \<lparr>ref_param = Some ''other''\<rparr>)]"

definition RESULT_NAME :: string where
  "RESULT_NAME = ''x_result''"

text \<open>
  \<^verbatim>\<open>_FN_BLACKLIST_REGEX\<close> holds one pattern, \<^verbatim>\<open>[^(]*cudnn\<close>, and is used with
  \<^verbatim>\<open>re.match\<close> only: a pattern is modelled by the set of strings it matches at
  their start. \<open>match_cudnn s\<close>: \<^verbatim>\<open>cudnn\<close> occurs in \<open>s\<close> with no \<^verbatim>\<open>(\<close> before
  it.
\<close>

fun match_cudnn :: "string \<Rightarrow> bool" where
  "match_cudnn [] = False"
| "match_cudnn (c # cs) = (is_prefix ''cudnn'' (c # cs) \<or> (c \<noteq> CHR ''('' \<and> match_cudnn cs))"

definition FN_BLACKLIST_REGEX :: "(string \<Rightarrow> bool) list" where
  "FN_BLACKLIST_REGEX = [match_cudnn]"

text \<open>
  The module's tables are global variables of the script; the functions that read them
  take them as a record, and \<open>TABLES\<close> holds the values the script gives them.
\<close>

record Tables =
  fn_blacklist :: "string list"
  fn_blacklist_regex :: "(string \<Rightarrow> bool) list"
  type_nsmap :: "string \<rightharpoonup> string"
  xla_functions :: "string \<rightharpoonup> string"
  ctor_functions :: "string \<rightharpoonup> string"
  function_options :: "string \<rightharpoonup> FuncOpts"

definition TABLES :: Tables where
  "TABLES = \<lparr>fn_blacklist = FN_BLACKLIST, fn_blacklist_regex = FN_BLACKLIST_REGEX,
             type_nsmap = TYPE_NSMAP, xla_functions = XLA_FUNCTIONS,
             ctor_functions = CTOR_FUNCTIONS, function_options = FUNCTION_OPTIONS\<rparr>"

section \<open>Tree accessors\<close>

text \<open>\<^verbatim>\<open>type_core\<close>: the name of the core type of a \<^verbatim>\<open>type\<close> node.\<close>

fun is_core_type :: "tree \<Rightarrow> bool" where
  "is_core_type (Tree d cs) = (d = ''core_type'')"
| "is_core_type (Token tk) = False"

fun type_core :: "tree \<Rightarrow> error + string" where
  "type_core (Token tk) = Inl AssertionError"
| "type_core (Tree d cs) =
     (case find is_core_type cs of
        None \<Rightarrow> Inl RuntimeError
      | Some (Token tk) \<Rightarrow> Inl RuntimeError
      | Some (Tree d1 []) \<Rightarrow> Inl IndexError
      | Some (Tree d1 (Token tk # cs1)) \<Rightarrow> Inr (tok_value tk)
      | Some (Tree d1 (Tree d2 cs2 # cs1)) \<Rightarrow>
          (if d2 \<noteq> ''template'' then Inl AssertionError
           else (case cs2 of
                   [] \<Rightarrow> Inl IndexError
                 | Token tk # cs3 \<Rightarrow> Inr (tok_value tk)
                 | Tree d3 cs4 # cs3 \<Rightarrow> Inl AttributeError)))"

fun type_is_const :: "tree \<Rightarrow> error + bool" where
  "type_is_const (Token tk) = Inl AssertionError"
| "type_is_const (Tree d []) = Inl IndexError"
| "type_is_const (Tree d (Token tk # cs)) = Inr (tok_value tk = ''const'')"
| "type_is_const (Tree d (Tree d1 cs1 # cs)) = Inr False"

fun type_is_refptr :: "tree \<Rightarrow> string \<Rightarrow> error + bool" where
  "type_is_refptr (Token tk) kind = Inl AssertionError"
| "type_is_refptr (Tree d cs) kind =
     (if cs = [] then Inl IndexError
      else (case last cs of
              Token tk \<Rightarrow> Inr False
            | Tree d1 cs1 \<Rightarrow>
                (if d1 \<noteq> ''refspec'' then Inr False
                 else (case cs1 of
                         [] \<Rightarrow> Inl IndexError
                       | Token tk # cs2 \<Rightarrow> Inr (tok_value tk = kind)
                       | Tree d2 cs3 # cs2 \<Rightarrow> Inr False))))"

text \<open>
  \<^verbatim>\<open>extract_list\<close> flattens a right-nested list node (\<^verbatim>\<open>params\<close>, \<^verbatim>\<open>typelist\<close>)
  of the compact tree: the first child, then the list under the second child when it is
  a node of the same rule.
\<close>

fun extract_list :: "tree \<Rightarrow> tree list \<Rightarrow> error + tree list" where
  "extract_list (Token tk) l = Inl AssertionError"
| "extract_list (Tree d []) l = Inl IndexError"
| "extract_list (Tree d [c0, Tree d1 cs1]) l =
     (if d1 = d then extract_list (Tree d1 cs1) (l @ [c0]) else Inr (l @ [c0]))"
| "extract_list (Tree d (c0 # cs)) l = Inr (l @ [c0])"

fun get_parameters :: "tree \<Rightarrow> error + tree list" where
  "get_parameters (Token tk) = Inl AssertionError"
| "get_parameters (Tree d (c0 # c1 # Tree d2 cs2 # cs)) =
     (if d2 = ''params'' then extract_list (Tree d2 cs2) [] else Inl AssertionError)"
| "get_parameters (Tree d (c0 # c1 # Token tk # cs)) = Inl AssertionError"
| "get_parameters (Tree d cs) = Inl IndexError"

text \<open>\<^verbatim>\<open>param_name\<close> and \<^verbatim>\<open>param_type\<close>; the argument of the source may be \<^verbatim>\<open>None\<close>.\<close>

fun param_name :: "tree option \<Rightarrow> error + string" where
  "param_name None = Inl AssertionError"
| "param_name (Some (Token tk)) = Inl AssertionError"
| "param_name (Some (Tree d (c0 # Tree d1 cs1 # cs))) =
     (if d1 \<noteq> ''param_name'' then Inl AssertionError
      else (case cs1 of
              [] \<Rightarrow> Inl IndexError
            | Token tk # cs2 \<Rightarrow> Inr (tok_value tk)
            | Tree d2 cs3 # cs2 \<Rightarrow> Inl AssertionError))"
| "param_name (Some (Tree d (c0 # Token tk # cs))) = Inl AssertionError"
| "param_name (Some (Tree d cs)) = Inl IndexError"

fun param_type :: "tree \<Rightarrow> error + tree" where
  "param_type (Token tk) = Inl AssertionError"
| "param_type (Tree d []) = Inl IndexError"
| "param_type (Tree d (Token tk # cs)) = Inl AssertionError"
| "param_type (Tree d (Tree d1 cs1 # cs)) = Inr (Tree d1 cs1)"

section \<open>Reference-parameter election\<close>

text \<open>
  \<^verbatim>\<open>get_reference_param\<close>: the loop over the parameters carries \<^verbatim>\<open>ref_param\<close> and
  \<^verbatim>\<open>other\<close>. \<^verbatim>\<open>fnopts and fnopts.ref_param == pname\<close>: a \<^verbatim>\<open>FuncOpts\<close> tuple is
  always true, so the test is that the override names \<^verbatim>\<open>pname\<close>.
\<close>

fun get_reference_param_loop ::
  "tree list \<Rightarrow> FuncOpts option \<Rightarrow> tree option \<Rightarrow> tree option \<Rightarrow> error + tree option" where
  "get_reference_param_loop [] fnopts refp other =
     Inr (if refp \<noteq> None then refp else other)"
| "get_reference_param_loop (p # ps) fnopts refp other =
     bind (param_type p) (\<lambda>ptype.
     bind (type_core ptype) (\<lambda>cptype.
     bind (param_name (Some p)) (\<lambda>pname.
       if fnopts \<noteq> None \<and> ref_param (the fnopts) = Some pname then Inr (Some p)
       else
         let other1 = (if other = None \<and> (cptype = ''TensorOptions'' \<or> cptype = ''TensorList'')
                       then Some p else other)
         in if cptype \<noteq> ''Tensor'' then get_reference_param_loop ps fnopts refp other1
            else if refp = None \<and> pname = ''self''
              then get_reference_param_loop ps fnopts (Some p) (Some p)
            else if refp = None
              then bind (type_is_const ptype) (\<lambda>c.
                     get_reference_param_loop ps fnopts (if c then Some p else refp) (Some p))
            else get_reference_param_loop ps fnopts refp (Some p))))"

definition get_reference_param :: "tree list \<Rightarrow> FuncOpts option \<Rightarrow> error + tree option" where
  "get_reference_param params fnopts = get_reference_param_loop params fnopts None None"


section \<open>The position-preserving emitter\<close>

text \<open>
  \<^verbatim>\<open>StringEmit\<close>: the original text \<^verbatim>\<open>sref\<close>, the text emitted so far \<^verbatim>\<open>sval\<close>
  and the cursor \<^verbatim>\<open>pos\<close> (\<open>-1\<close>: no cursor).
\<close>

record StringEmit =
  sref :: string
  sval :: string
  pos :: int

definition new_StringEmit :: "string \<Rightarrow> StringEmit" where
  "new_StringEmit s = \<lparr>sref = s, sval = [], pos = -1\<rparr>"

fun last_match :: "tree \<Rightarrow> error + int"
  and last_match_children :: "tree list \<Rightarrow> error + int" where
  "last_match (Token tk) = Inr (end_column tk - 1)"
| "last_match (Tree d cs) = last_match_children cs"
| "last_match_children [] = Inl IndexError"
| "last_match_children [c] = last_match c"
| "last_match_children (c # c1 # cs) = last_match_children (c1 # cs)"

definition advance :: "token \<Rightarrow> StringEmit \<Rightarrow> StringEmit" where
  "advance t e =
     (let start = column t - 1;
          end = end_column t - 1;
          p = (if pos e \<ge> 0 then pos e else start);
          sv = (if start > p then sval e @ py_slice (sref e) p start else sval e)
      in e\<lparr>sval := sv @ tok_value t, pos := end\<rparr>)"

definition skip :: "tree \<Rightarrow> StringEmit \<Rightarrow> error + StringEmit" where
  "skip t e =
     (if pos e \<ge> 0 then bind (last_match t) (\<lambda>l. Inr (e\<lparr>pos := l\<rparr>))
      else Inr (e\<lparr>pos := -1\<rparr>))"

definition append_str :: "string \<Rightarrow> StringEmit \<Rightarrow> StringEmit" where
  "append_str s e = e\<lparr>sval := sval e @ s, pos := -1\<rparr>"

text \<open>
  \<^verbatim>\<open>for_every_token\<close> is used in two ways: with a function that changes the emitter
  (\<open>for_every_token\<close>, state passing) and with one that changes the token it visits
  (\<open>for_every_token_update\<close>, which returns the changed tree).
\<close>

fun for_every_token :: "tree \<Rightarrow> (token \<Rightarrow> 's \<Rightarrow> 's) \<Rightarrow> 's \<Rightarrow> 's"
  and for_every_token_children :: "tree list \<Rightarrow> (token \<Rightarrow> 's \<Rightarrow> 's) \<Rightarrow> 's \<Rightarrow> 's" where
  "for_every_token (Token tk) fn s = fn tk s"
| "for_every_token (Tree d cs) fn s = for_every_token_children cs fn s"
| "for_every_token_children [] fn s = s"
| "for_every_token_children (c # cs) fn s =
     for_every_token_children cs fn (for_every_token c fn s)"

fun for_every_token_update :: "tree \<Rightarrow> (token \<Rightarrow> token) \<Rightarrow> tree" where
  "for_every_token_update (Token tk) fn = Token (fn tk)"
| "for_every_token_update (Tree d cs) fn = Tree d (map (\<lambda>c. for_every_token_update c fn) cs)"

text \<open>
  \<^verbatim>\<open>emit_string\<close>: the policy \<^verbatim>\<open>emit_fn\<close> answers a positive number (copy every
  token below), zero (a token is copied, a node is visited child by child) or a negative
  number (skip).
\<close>

fun emit_string :: "tree \<Rightarrow> StringEmit \<Rightarrow> (tree \<Rightarrow> int) \<Rightarrow> error + StringEmit"
  and emit_string_children :: "tree list \<Rightarrow> StringEmit \<Rightarrow> (tree \<Rightarrow> int) \<Rightarrow> error + StringEmit" where
  "emit_string (Token tk) e emit_fn =
     (if emit_fn (Token tk) > 0 then Inr (for_every_token (Token tk) advance e)
      else if emit_fn (Token tk) = 0 then Inr (advance tk e)
      else skip (Token tk) e)"
| "emit_string (Tree d cs) e emit_fn =
     (if emit_fn (Tree d cs) > 0 then Inr (for_every_token (Tree d cs) advance e)
      else if emit_fn (Tree d cs) = 0 then emit_string_children cs e emit_fn
      else skip (Tree d cs) e)"
| "emit_string_children [] e emit_fn = Inr e"
| "emit_string_children (c # cs) e emit_fn =
     (case emit_string c e emit_fn of
        Inl x \<Rightarrow> Inl x
      | Inr e1 \<Rightarrow> emit_string_children cs e1 emit_fn)"

fun typed_child :: "tree \<Rightarrow> nat \<Rightarrow> string \<Rightarrow> error + tree" where
  "typed_child (Token tk) n ttype = Inl AssertionError"
| "typed_child (Tree d cs) n ttype =
     (if \<not> n < length cs then Inl AssertionError
      else (case cs ! n of
              Token tk \<Rightarrow> Inl AssertionError
            | Tree d1 cs1 \<Rightarrow> if d1 = ttype then Inr (Tree d1 cs1) else Inl AssertionError))"

definition rewrite_sig :: "tree \<Rightarrow> string \<Rightarrow> (tree \<Rightarrow> int) \<Rightarrow> error + string" where
  "rewrite_sig t orig_sig emit_fn =
     bind (emit_string t (new_StringEmit orig_sig) emit_fn) (\<lambda>e. Inr (sval e))"

text \<open>The policy \<^verbatim>\<open>lambda x: 0\<close>.\<close>

definition emit_all :: "tree \<Rightarrow> int" where
  "emit_all t = 0"

section \<open>Signature transforms\<close>

text \<open>\<^verbatim>\<open>rewrite_signature\<close>: the inner functions \<^verbatim>\<open>rewrite\<close> and \<^verbatim>\<open>emit_fn\<close>.\<close>

definition rewrite :: "(string \<rightharpoonup> string) \<Rightarrow> token \<Rightarrow> token" where
  "rewrite tmap t =
     (if tok_type t = ''TNAME''
      then (case tmap (tok_value t) of None \<Rightarrow> t | Some new_type \<Rightarrow> t\<lparr>tok_value := new_type\<rparr>)
      else t)"

fun emit_fn_rewrite :: "tree \<Rightarrow> int" where
  "emit_fn_rewrite (Token tk) = 0"
| "emit_fn_rewrite (Tree d cs) = (if d = ''param_defval'' then -1 else 0)"

definition rewrite_signature :: "parser \<Rightarrow> string \<Rightarrow> (string \<rightharpoonup> string) \<Rightarrow> error + string" where
  "rewrite_signature xparser sig tmap =
     (case xparser sig of
        None \<Rightarrow> Inl ParseError
      | Some xtree \<Rightarrow> rewrite_sig (for_every_token_update xtree (rewrite tmap)) sig emit_fn_rewrite)"

fun emit_fn_stdfunc :: "tree \<Rightarrow> int" where
  "emit_fn_stdfunc (Token tk) = 0"
| "emit_fn_stdfunc (Tree d cs) = (if d = ''param_name'' then -1 else 0)"

definition create_stdfunc_sig :: "tree \<Rightarrow> string \<Rightarrow> error + string" where
  "create_stdfunc_sig t orig_sig =
     bind (typed_child t 0 ''type'') (\<lambda>ty.
     bind (emit_string ty (new_StringEmit orig_sig) emit_fn_stdfunc) (\<lambda>e1.
     bind (typed_child t 3 ''params'') (\<lambda>ps.
     bind (emit_string ps (append_str ''('' e1) emit_fn_stdfunc) (\<lambda>e2.
       Inr (sval (append_str '')'' e2))))))"

fun emit_fn_map :: "tree \<Rightarrow> int" where
  "emit_fn_map (Token tk) = (if tok_type tk \<in> set [''CONST'', ''REF'', ''PTR''] then -1 else 0)"
| "emit_fn_map (Tree d cs) = (if d = ''param_name'' then -1 else 0)"

definition create_map_sig :: "tree \<Rightarrow> string \<Rightarrow> error + string" where
  "create_map_sig t orig_sig =
     bind (typed_child t 1 ''fnname'') (\<lambda>fnn.
     bind (emit_string fnn (new_StringEmit orig_sig) emit_fn_map) (\<lambda>e1.
     bind (typed_child t 3 ''params'') (\<lambda>ps.
     bind (emit_string ps (append_str ''('' e1) emit_fn_map) (\<lambda>e2.
     bind (typed_child t 0 ''type'') (\<lambda>ty.
     bind (emit_string ty (append_str '') -> '' e2) emit_fn_map) (\<lambda>e3.
       Inr (sval e3)))))))"

text \<open>
  \<^verbatim>\<open>get_function_signature\<close>: \<^verbatim>\<open>namefn\<close> may change the state it closes over
  (the overload counter), so it takes that state and returns it; the state comes back
  also when a later step raises.
\<close>

fun fnname_token :: "tree \<Rightarrow> error + token" where
  "fnname_token (Tree d (Token tk # cs)) = Inr tk"
| "fnname_token (Tree d (Tree d1 cs1 # cs)) = Inl AttributeError"
| "fnname_token (Tree d []) = Inl IndexError"
| "fnname_token (Token tk) = Inl AttributeError"

definition get_function_signature ::
  "tree \<Rightarrow> string \<Rightarrow> (string \<Rightarrow> 's \<Rightarrow> string \<times> 's) \<Rightarrow> 's
     \<Rightarrow> (error + string \<times> string \<times> string) \<times> 's" where
  "get_function_signature t orig_sig namefn s =
     (case bind (typed_child t 0 ''type'') (\<lambda>ty.
           bind (emit_string ty (new_StringEmit orig_sig) emit_all) (\<lambda>e1.
           bind (typed_child t 1 ''fnname'') (\<lambda>fnn.
           bind (fnname_token fnn) (\<lambda>fnname. Inr (e1, fnname))))) of
        Inl x \<Rightarrow> (Inl x, s)
      | Inr (e1, fnname) \<Rightarrow>
          (let (xfname, s1) = namefn (tok_value fnname) s;
               e2 = append_str ('' '' @ xfname @ ''('') e1
           in (bind (typed_child t 3 ''params'') (\<lambda>ps.
               bind (emit_string ps e2 emit_all) (\<lambda>e3.
                 Inr (sval (append_str '')'' e3), tok_value fnname, xfname))), s1)))"

text \<open>\<^verbatim>\<open>get_return_type_str\<close>: the text before the function name.\<close>

definition get_return_type_str :: "tree \<Rightarrow> string \<Rightarrow> error + string" where
  "get_return_type_str t orig_sig =
     (case t of
        Token tk \<Rightarrow> Inl AssertionError
      | Tree d cs \<Rightarrow>
          (if \<not> 1 < length cs then Inl IndexError
           else (case cs ! 1 of
                   Token tk \<Rightarrow> Inl AssertionError
                 | Tree d1 cs1 \<Rightarrow>
                     (if d1 \<noteq> ''fnname'' then Inl AssertionError
                      else (case cs1 of
                              [] \<Rightarrow> Inl IndexError
                            | Tree d2 cs2 # cs3 \<Rightarrow> Inl AssertionError
                            | Token tk # cs3 \<Rightarrow> Inr (py_slice orig_sig 0 (column tk - 2)))))))"

section \<open>Wrapper synthesis\<close>

record Context =
  gen_class_mode :: bool
  defdb :: "string \<rightharpoonup> nat"
  functions_data :: string
  native_functions_data :: string

text \<open>\<^verbatim>\<open>Context.get_function\<close>; \<^verbatim>\<open>ref_param\<close> may be \<^verbatim>\<open>None\<close>.\<close>

definition get_function :: "Context \<Rightarrow> string \<Rightarrow> string option \<Rightarrow> string" where
  "get_function ctx name refp =
     (if str_contains (functions_data ctx) ('' '' @ name @ ''('') then ''at::'' @ name
      else if str_contains (native_functions_data ctx) ('' '' @ name @ ''('')
        then ''at::native::'' @ name
      else ''at::detail::infer_type('' @ str_opt refp @ '').'' @ name)"

text \<open>
  \<^verbatim>\<open>get_handling_function\<close>: \<^verbatim>\<open>xla_function or ctx.get_function(...)\<close> takes the
  table's entry unless it is missing or the empty string.
\<close>

definition get_handling_function :: "Tables \<Rightarrow> Context \<Rightarrow> string \<Rightarrow> string option \<Rightarrow> string" where
  "get_handling_function tb ctx fname xla_ref_param =
     (case xla_functions tb fname of
        None \<Rightarrow> get_function ctx fname xla_ref_param
      | Some xla_function \<Rightarrow>
          if xla_function \<noteq> [] then xla_function else get_function ctx fname xla_ref_param)"

record TensorFetcher =
  var_name :: string
  tensors :: "string list"
  writeable :: "string list"

definition new_TensorFetcher :: "string \<Rightarrow> TensorFetcher" where
  "new_TensorFetcher v = \<lparr>var_name = v, tensors = [], writeable = []\<rparr>"

definition add_tensor :: "string \<Rightarrow> bool \<Rightarrow> TensorFetcher \<Rightarrow> string \<times> TensorFetcher" where
  "add_tensor name w tf =
     (let tf1 = tf\<lparr>tensors := tensors tf @ [name],
                    writeable := writeable tf @ [if w then ''true'' else ''false'']\<rparr>
      in (var_name tf @ ''['' @ str_nat (length (tensors tf1) - 1) @ '']'', tf1))"

fun join :: "string \<Rightarrow> string list \<Rightarrow> string" where
  "join sep [] = []"
| "join sep [x] = x"
| "join sep (x # y # ys) = x @ sep @ join sep (y # ys)"

definition generate_fetch :: "TensorFetcher \<Rightarrow> string" where
  "generate_fetch tf =
     (let tvar_name = var_name tf @ ''_tensors'';
          wvar_name = var_name tf @ ''_writeables''
      in ''  std::vector<at::Tensor> '' @ tvar_name @ '' = {'' @ join '', '' (tensors tf) @ ''};\<newline>''
         @ ''  std::vector<bool> '' @ wvar_name @ '' = {'' @ join '', '' (writeable tf) @ ''};\<newline>''
         @ ''  auto '' @ var_name tf @ '' = bridge::XlaCreateTensorList('' @ tvar_name @ '', &''
         @ wvar_name @ '');\<newline>'')"

definition list_get :: "'a list \<Rightarrow> nat \<Rightarrow> 'a option" where
  "list_get l n = (if n < length l then Some (l ! n) else None)"

definition is_blacklisted_fn :: "Tables \<Rightarrow> string \<Rightarrow> string \<Rightarrow> bool" where
  "is_blacklisted_fn tb fname mapsig =
     (if fname \<in> set (fn_blacklist tb) \<or> mapsig \<in> set (fn_blacklist tb) then True
      else list_ex (\<lambda>frx. frx fname \<or> frx mapsig) (fn_blacklist_regex tb))"

text \<open>\<^verbatim>\<open>tuple_type_list\<close>: the element types of a \<^verbatim>\<open>std::tuple<...>\<close> return type.\<close>

fun tuple_type_list :: "tree \<Rightarrow> error + tree list" where
  "tuple_type_list (Token tk) = Inl AssertionError"
| "tuple_type_list (Tree d []) = Inl IndexError"
| "tuple_type_list (Tree d (Token tk # cs)) = Inl AssertionError"
| "tuple_type_list (Tree d (Tree d1 cs1 # cs)) =
     (if d1 \<noteq> ''core_type'' then Inl AssertionError
      else (case cs1 of
              [] \<Rightarrow> Inl IndexError
            | Token tk # cs2 \<Rightarrow> Inl AssertionError
            | Tree d2 cs3 # cs2 \<Rightarrow>
                (if d2 \<noteq> ''template'' then Inl AssertionError
                 else if \<not> 1 < length cs3 then Inl IndexError
                 else extract_list (cs3 ! 1) [])))"

text \<open>
  \<^verbatim>\<open>get_return_value\<close>. \<^verbatim>\<open>rname\<close> and \<^verbatim>\<open>param\<close> may be \<^verbatim>\<open>None\<close>;
  \<^verbatim>\<open>assert param\<close> fails on \<^verbatim>\<open>None\<close> only (a tree is never false).
\<close>

definition get_return_value ::
  "tree \<Rightarrow> string option \<Rightarrow> tree option \<Rightarrow> string option \<Rightarrow> tree option \<Rightarrow> error + string option" where
  "get_return_value rtype rname param var refp =
     bind (type_core rtype) (\<lambda>crtype.
     bind (type_is_const rtype) (\<lambda>c.
     bind (if c then Inr True else type_is_refptr rtype ''&'') (\<lambda>alias.
       if alias then
         (if param = None then Inl AssertionError
          else bind (param_name param) (\<lambda>n. Inr (Some n)))
       else if crtype \<noteq> ''Tensor'' then Inr rname
       else bind (param_name refp) (\<lambda>n.
              Inr (Some (''bridge::CreateXlaTensor('' @ str_opt rname
                         @ '', bridge::GetXlaDevice('' @ n @ ''))''))))))"

fun get_tuple_return_loop ::
  "tree list \<Rightarrow> nat \<Rightarrow> string \<Rightarrow> string option \<Rightarrow> tree list \<Rightarrow> string list \<Rightarrow> tree option
     \<Rightarrow> error + string" where
  "get_tuple_return_loop [] i retstr rname params param_vars refp = Inr retstr"
| "get_tuple_return_loop (ttype # types) i retstr rname params param_vars refp =
     (let retstr1 = (if i > 0 then retstr @ '', '' else retstr);
          tuple_var = ''std::get<'' @ str_nat i @ ''>('' @ str_opt rname @ '')''
      in bind (get_return_value ttype (Some tuple_var) (list_get params i)
                 (list_get param_vars i) refp) (\<lambda>v.
           case v of
             None \<Rightarrow> Inl TypeError
           | Some s \<Rightarrow> get_tuple_return_loop types (i + 1) (retstr1 @ s) rname params param_vars refp))"

definition get_tuple_return ::
  "tree \<Rightarrow> string \<Rightarrow> string option \<Rightarrow> tree list \<Rightarrow> string list \<Rightarrow> tree option \<Rightarrow> error + string" where
  "get_tuple_return rtype rtype_str rname params param_vars refp =
     bind (tuple_type_list rtype) (\<lambda>types.
     bind (get_tuple_return_loop types 0 (rtype_str @ ''('') rname params param_vars refp) (\<lambda>retstr.
       Inr (retstr @ '')'')))"

definition generate_debug_code :: "string \<Rightarrow> string" where
  "generate_debug_code fname = ''  XLA_COUNTER(\"aten::'' @ fname @ ''\", 1);\<newline>''"

fun first_child :: "tree \<Rightarrow> error + tree" where
  "first_child (Token tk) = Inl AssertionError"
| "first_child (Tree d []) = Inl IndexError"
| "first_child (Tree d (c # cs)) = Inr c"

definition generate_return_stmt ::
  "tree \<Rightarrow> string \<Rightarrow> string \<Rightarrow> string option \<Rightarrow> tree list \<Rightarrow> string list \<Rightarrow> tree option
     \<Rightarrow> error + string" where
  "generate_return_stmt t rtype_str fname rname params param_vars refp =
     bind (first_child t) (\<lambda>rtype.
     bind (type_core rtype) (\<lambda>ctype.
       if ctype = ''std::tuple'' then
         bind (get_tuple_return rtype rtype_str rname params param_vars refp) (\<lambda>retstr.
           Inr (''  return '' @ retstr @ '';\<newline>''))
       else if ctype = ''std::vector'' then
         bind (param_name refp) (\<lambda>n.
           Inr (''  return '' @ ''bridge::CreateXlaTensors('' @ str_opt rname
                @ '', bridge::GetXlaDevice('' @ n @ ''))'' @ '';\<newline>''))
       else if ctype = ''Tensor'' then
         (if params = [] \<or> param_vars = [] then Inl IndexError
          else bind (get_return_value rtype rname (Some (hd params)) (Some (hd param_vars)) refp)
                 (\<lambda>retstr. Inr (''  return '' @ str_opt retstr @ '';\<newline>'')))
       else if ctype = ''void'' then
         bind (type_is_refptr rtype ''*'') (\<lambda>ptr.
           if \<not> ptr then Inr [] else Inr (''  return '' @ str_opt rname @ '';\<newline>''))
       else Inr (''  return '' @ str_opt rname @ '';\<newline>'')))"

definition generate_result_assignment :: "tree \<Rightarrow> string \<Rightarrow> error + string" where
  "generate_result_assignment t rname =
     bind (first_child t) (\<lambda>rtype.
     bind (type_core rtype) (\<lambda>ctype.
       if ctype = ''void'' then
         bind (type_is_refptr rtype ''*'') (\<lambda>ptr.
           if \<not> ptr then Inr [] else Inr (''auto&& '' @ rname @ '' = ''))
       else Inr (''auto&& '' @ rname @ '' = '')))"

definition rewrite_tensor_options :: "Tables \<Rightarrow> string \<Rightarrow> string \<Rightarrow> string \<times> string" where
  "rewrite_tensor_options tb fname pname =
     (case ctor_functions tb fname of
        None \<Rightarrow> ([], pname)
      | Some rw \<Rightarrow>
          (let xname = ''o_'' @ pname
           in (''  at::TensorOptions '' @ xname @ '' = '' @ pname @ rw @ '';\<newline>'', xname)))"

text \<open>
  \<^verbatim>\<open>p == ref_param\<close> is the equality of lark trees: nodes are equal when their rule
  names and children are, tokens when their types and texts are; positions are not
  compared, and nothing equals \<^verbatim>\<open>None\<close>.
\<close>

fun tree_eq :: "tree \<Rightarrow> tree \<Rightarrow> bool"
  and tree_eq_list :: "tree list \<Rightarrow> tree list \<Rightarrow> bool" where
  "tree_eq (Token a) (Token b) = (tok_type a = tok_type b \<and> tok_value a = tok_value b)"
| "tree_eq (Tree d cs) (Tree d1 cs1) = (d = d1 \<and> tree_eq_list cs cs1)"
| "tree_eq (Token a) (Tree d1 cs1) = False"
| "tree_eq (Tree d cs) (Token b) = False"
| "tree_eq_list [] [] = True"
| "tree_eq_list (c # cs) (c1 # cs1) = (tree_eq c c1 \<and> tree_eq_list cs cs1)"
| "tree_eq_list [] (c1 # cs1) = False"
| "tree_eq_list (c # cs) [] = False"

text \<open>
  The overload counter: \<^verbatim>\<open>gen_fnname\<close>, the inner function of
  \<^verbatim>\<open>get_xla_wrapper\<close>, changes \<^verbatim>\<open>ctx.defdb\<close>.
\<close>

definition gen_fnname :: "string \<Rightarrow> Context \<Rightarrow> string \<times> Context" where
  "gen_fnname x ctx =
     (if gen_class_mode ctx then (''AtenXlaTypeBase::'' @ x, ctx)
      else (case defdb ctx x of
              Some n \<Rightarrow> (''xla_'' @ x @ ''_'' @ str_nat n, ctx\<lparr>defdb := (defdb ctx)(x \<mapsto> n + 1)\<rparr>)
            | None \<Rightarrow> (''xla_'' @ x, ctx\<lparr>defdb := (defdb ctx)(x \<mapsto> 1)\<rparr>)))"

text \<open>
  The loop of \<^verbatim>\<open>get_xla_wrapper\<close> over the parameters. Its state: the code so far,
  \<^verbatim>\<open>param_vars\<close>, the tensor fetcher and \<^verbatim>\<open>xla_ref_param\<close>.
  \<^verbatim>\<open>not (fnopts and fnopts.ref_param)\<close>: there is no override, or it names nothing.
\<close>

definition names_nothing :: "FuncOpts option \<Rightarrow> bool" where
  "names_nothing fnopts =
     (case fnopts of
        None \<Rightarrow> True
      | Some fo \<Rightarrow> (case ref_param fo of None \<Rightarrow> True | Some n \<Rightarrow> n = []))"

fun marshal_params ::
  "Tables \<Rightarrow> string \<Rightarrow> FuncOpts option \<Rightarrow> tree option \<Rightarrow> tree list
     \<Rightarrow> string \<times> string list \<times> TensorFetcher \<times> string option
     \<Rightarrow> error + string \<times> string list \<times> TensorFetcher \<times> string option" where
  "marshal_params tb fname fnopts refp [] st = Inr st"
| "marshal_params tb fname fnopts refp (p # ps) (code, param_vars, tfetcher, xla_ref_param) =
     bind (param_type p) (\<lambda>ptype.
     bind (type_core ptype) (\<lambda>cptype.
     bind (param_name (Some p)) (\<lambda>pname.
     bind (if cptype = ''TensorList'' then
             (let xname = ''l_'' @ pname
              in Inr (code @ ''  auto '' @ xname @ '' = bridge::XlaCreateTensorList('' @ pname
                        @ '', /*writeable=*/nullptr);\<newline>'', param_vars @ [xname], tfetcher))
           else if cptype = ''TensorOptions'' then
             (let (gcode, xname) = rewrite_tensor_options tb fname pname
              in Inr (code @ gcode, param_vars @ [xname], tfetcher))
           else if cptype \<noteq> ''Tensor'' then Inr (code, param_vars @ [pname], tfetcher)
           else bind (type_is_const ptype) (\<lambda>c.
                  let (xname, tf1) = add_tensor pname (\<not> c) tfetcher
                  in Inr (code, param_vars @ [xname], tf1)))
       (\<lambda>(code1, param_vars1, tf1).
          let xla_ref_param1 =
                (if (case refp of None \<Rightarrow> False | Some r \<Rightarrow> tree_eq p r) \<and> names_nothing fnopts
                 then Some (last param_vars1) else xla_ref_param)
          in marshal_params tb fname fnopts refp ps (code1, param_vars1, tf1, xla_ref_param1)))))"

record FuncGen =
  fg_tree :: tree
  fg_xtree :: tree
  fg_rwxtree :: tree
  fg_func :: string
  fg_xfunc :: string
  fg_code :: string
  fg_sig :: string
  fg_rwsig :: string
  fg_cppsig :: string
  fg_funsig :: string
  fg_mapsig :: string

text \<open>
  \<^verbatim>\<open>get_xla_wrapper\<close> in three parts. \<open>analyse\<close> is the part before
  \<^verbatim>\<open>get_function_signature\<close> is called: the two parses, the dispatch key, the
  rewritten signature and its parse, the parameters and the reference parameter.
\<close>

record Analysis =
  an_tree :: tree
  an_xtree :: tree
  an_mapsig :: string
  an_rwsig :: string
  an_rwxtree :: tree
  an_params :: "tree list"
  an_fnopts :: "FuncOpts option"
  an_ref_param :: "tree option"

definition parse :: "parser \<Rightarrow> string \<Rightarrow> error + tree" where
  "parse p s = (case p s of None \<Rightarrow> Inl ParseError | Some t \<Rightarrow> Inr t)"

definition analyse :: "Tables \<Rightarrow> parser \<Rightarrow> parser \<Rightarrow> string \<Rightarrow> error + Analysis" where
  "analyse tb parser xparser orig_sig =
     bind (parse parser orig_sig) (\<lambda>tree.
     bind (parse xparser orig_sig) (\<lambda>xtree.
     bind (create_map_sig xtree orig_sig) (\<lambda>mapsig.
     bind (rewrite_signature xparser orig_sig (type_nsmap tb)) (\<lambda>rwsig.
     bind (parse xparser rwsig) (\<lambda>rwxtree.
     bind (get_parameters tree) (\<lambda>params.
     bind (get_reference_param params (function_options tb mapsig)) (\<lambda>refp.
       Inr \<lparr>an_tree = tree, an_xtree = xtree, an_mapsig = mapsig, an_rwsig = rwsig,
            an_rwxtree = rwxtree, an_params = params,
            an_fnopts = function_options tb mapsig, an_ref_param = refp\<rparr>)))))))"

text \<open>
  \<open>synthesize\<close> is the part after the blacklist check. \<open>wrapper_code\<close> puts the
  pieces of the function body together in the order in which the source appends them to
  \<^verbatim>\<open>code\<close>: the declaration and the marshalling code of the parameters (\<open>code1\<close>),
  the tensor fetcher's code, the call, the cast, the counter and the return statement.
\<close>

definition wrapper_code ::
  "string \<Rightarrow> TensorFetcher \<Rightarrow> string \<Rightarrow> string \<Rightarrow> string list \<Rightarrow> string \<Rightarrow> string \<Rightarrow> string" where
  "wrapper_code code1 tfetcher result_assign callee param_vars fname ret =
     code1 @ generate_fetch tfetcher
     @ ''  '' @ result_assign @ callee @ ''('' @ join '', '' param_vars @ '');\<newline>''
     @ (if result_assign \<noteq> []
        then ''  static_cast<void>('' @ RESULT_NAME @ ''); // Avoid warnings in case not used\<newline>''
        else [])
     @ generate_debug_code fname @ ret @ ''}''"

definition result_name :: "string \<Rightarrow> string option" where
  "result_name result_assign = (if result_assign \<noteq> [] then Some RESULT_NAME else None)"

definition initial_ref_param :: "tree option \<Rightarrow> error + string option" where
  "initial_ref_param refp =
     (if refp \<noteq> None then bind (param_name refp) (\<lambda>n. Inr (Some n)) else Inr None)"

definition synthesize ::
  "Tables \<Rightarrow> Context \<Rightarrow> string \<Rightarrow> Analysis \<Rightarrow> string \<Rightarrow> string \<Rightarrow> string \<Rightarrow> error + FuncGen" where
  "synthesize tb ctx orig_sig a sig fname xfname =
     bind (initial_ref_param (an_ref_param a)) (\<lambda>xla_ref_param0.
     bind (marshal_params tb fname (an_fnopts a) (an_ref_param a) (an_params a)
             (sig @ '' '' @ (if gen_class_mode ctx then ''const '' else []) @ ''{\<newline>'', [],
              new_TensorFetcher ''xlatens'', xla_ref_param0))
       (\<lambda>(code1, param_vars, tfetcher, xla_ref_param).
     bind (generate_result_assignment (an_tree a) RESULT_NAME) (\<lambda>result_assign.
     bind (get_return_type_str (an_rwxtree a) (an_rwsig a)) (\<lambda>rtype_str.
     bind (generate_return_stmt (an_tree a) rtype_str fname (result_name result_assign)
             (an_params a) param_vars (an_ref_param a)) (\<lambda>ret.
     bind (create_stdfunc_sig (an_rwxtree a) (an_rwsig a)) (\<lambda>funsig.
       Inr \<lparr>fg_tree = an_tree a, fg_xtree = an_xtree a, fg_rwxtree = an_rwxtree a,
            fg_func = fname, fg_xfunc = xfname,
            fg_code = wrapper_code code1 tfetcher result_assign
                        (get_handling_function tb ctx fname xla_ref_param) param_vars fname ret,
            fg_sig = orig_sig, fg_rwsig = an_rwsig a, fg_cppsig = sig, fg_funsig = funsig,
            fg_mapsig = an_mapsig a\<rparr>))))))"

text \<open>
  \<^verbatim>\<open>get_xla_wrapper\<close>: the result is an exception, \<^verbatim>\<open>None\<close> (blacklisted) or the
  function record; the context comes back in every case, since an exception does not undo
  what \<^verbatim>\<open>gen_fnname\<close> did to the counter.
\<close>

definition get_xla_wrapper ::
  "Tables \<Rightarrow> parser \<Rightarrow> parser \<Rightarrow> string \<Rightarrow> Context \<Rightarrow> (error + FuncGen option) \<times> Context" where
  "get_xla_wrapper tb parser xparser orig_sig ctx =
     (case analyse tb parser xparser orig_sig of
        Inl x \<Rightarrow> (Inl x, ctx)
      | Inr a \<Rightarrow>
          (case get_function_signature (an_rwxtree a) (an_rwsig a) gen_fnname ctx of
             (Inl x, ctx1) \<Rightarrow> (Inl x, ctx1)
           | (Inr (sig, fname, xfname), ctx1) \<Rightarrow>
               if is_blacklisted_fn tb fname (an_mapsig a) then (Inr None, ctx1)
               else (case synthesize tb ctx1 orig_sig a sig fname xfname of
                       Inl x \<Rightarrow> (Inl x, ctx1)
                     | Inr fg \<Rightarrow> (Inr (Some fg), ctx1))))"

text \<open>
  The loop of \<^verbatim>\<open>generate\<close> over the extracted declarations: an exception is
  reported and the declaration left out, and so is a result \<^verbatim>\<open>None\<close>.
\<close>

fun generate_loop ::
  "Tables \<Rightarrow> parser \<Rightarrow> parser \<Rightarrow> string list \<Rightarrow> Context \<Rightarrow> FuncGen list
     \<Rightarrow> FuncGen list \<times> Context" where
  "generate_loop tb parser xparser [] ctx fgens = (fgens, ctx)"
| "generate_loop tb parser xparser (ts # fndefs) ctx fgens =
     (case get_xla_wrapper tb parser xparser ts ctx of
        (Inr (Some fgen), ctx1) \<Rightarrow> generate_loop tb parser xparser fndefs ctx1 (fgens @ [fgen])
      | (Inr None, ctx1) \<Rightarrow> generate_loop tb parser xparser fndefs ctx1 fgens
      | (Inl x, ctx1) \<Rightarrow> generate_loop tb parser xparser fndefs ctx1 fgens)"

definition generate_registrations :: "FuncGen list \<Rightarrow> string" where
  "generate_registrations fgens =
     ''void RegisterAtenTypeFunctions() {\<newline>''
     @ concat (map (\<lambda>fgen. ''  at::register_extension_backend_op(\<newline>    at::Backend::XLA,\<newline>    \"''
                             @ fg_mapsig fgen @ ''\",\<newline>    &'' @ fg_xfunc fgen @ '');\<newline>'') fgens)
     @ ''}\<newline>''"

definition generate_functions :: "FuncGen list \<Rightarrow> string" where
  "generate_functions fgens = concat (map (\<lambda>fgen. fg_code fgen @ ''\<newline>\<newline>'') fgens)"

definition generate_class_functions :: "FuncGen list \<Rightarrow> string" where
  "generate_class_functions fgens =
     concat (map (\<lambda>fgen. ''  '' @ fg_rwsig fgen @ '' const override;\<newline>'') fgens)"

section \<open>The grammar and the positions of a parse\<close>


definition tname_char :: "char \<Rightarrow> bool" where
  "tname_char c =
     (c \<in> set ''abcdefghijklmnopqrstuvwxyzABCDEFGHIJKLMNOPQRSTUVWXYZ0123456789_:'')"

definition cname_first :: "char \<Rightarrow> bool" where
  "cname_first c = (c \<in> set ''abcdefghijklmnopqrstuvwxyzABCDEFGHIJKLMNOPQRSTUVWXYZ_'')"

definition cname_char :: "char \<Rightarrow> bool" where
  "cname_char c =
     (c \<in> set ''abcdefghijklmnopqrstuvwxyzABCDEFGHIJKLMNOPQRSTUVWXYZ0123456789_'')"

definition named_terminals :: "string list" where
  "named_terminals = [''CONST'', ''TNAME'', ''CNAME'', ''REF'', ''PTR'']"

fun tok_const :: "tree \<Rightarrow> bool" where
  "tok_const (Token tk) = (tok_type tk = ''CONST'' \<and> tok_value tk = ''const'')"
| "tok_const (Tree d cs) = False"

fun tok_tname :: "tree \<Rightarrow> bool" where
  "tok_tname (Token tk) =
     (tok_type tk = ''TNAME'' \<and> tok_value tk \<noteq> [] \<and> list_all tname_char (tok_value tk))"
| "tok_tname (Tree d cs) = False"

fun tok_cname :: "tree \<Rightarrow> bool" where
  "tok_cname (Token tk) =
     (tok_type tk = ''CNAME'' \<and> tok_value tk \<noteq> [] \<and> cname_first (hd (tok_value tk)) \<and>
      list_all cname_char (tok_value tk))"
| "tok_cname (Tree d cs) = False"

fun tok_refptr :: "tree \<Rightarrow> bool" where
  "tok_refptr (Token tk) =
     ((tok_type tk = ''REF'' \<and> tok_value tk = ''&'') \<or> (tok_type tk = ''PTR'' \<and> tok_value tk = ''*''))"
| "tok_refptr (Tree d cs) = False"

fun punct :: "string \<Rightarrow> tree \<Rightarrow> bool" where
  "punct v (Token tk) = (tok_value tk = v \<and> tok_type tk \<notin> set named_terminals)"
| "punct v (Tree d cs) = False"

fun tok_literal :: "tree \<Rightarrow> bool" where
  "tok_literal (Token tk) = (tok_value tk \<noteq> [] \<and> tok_type tk \<notin> set named_terminals)"
| "tok_literal (Tree d cs) = False"

text \<open>\<^verbatim>\<open>refspec: REF | PTR\<close>\<close>

fun conf_refspec :: "tree \<Rightarrow> bool" where
  "conf_refspec (Tree d [c]) = (d = ''refspec'' \<and> tok_refptr c)"
| "conf_refspec t = False"

text \<open>
  \<^verbatim>\<open>type: CONST? core_type refspec?\<close>,
  \<^verbatim>\<open>core_type: template | TNAME\<close>,
  \<^verbatim>\<open>template: TNAME "<" typelist ">"\<close>,
  \<^verbatim>\<open>typelist: type | type "," typelist\<close>
\<close>

fun conf_type :: "tree \<Rightarrow> bool"
  and conf_core :: "tree \<Rightarrow> bool"
  and conf_typelist :: "tree \<Rightarrow> bool" where
  "conf_type (Tree d [a]) = (d = ''type'' \<and> conf_core a)"
| "conf_type (Tree d [a, b]) =
     (d = ''type'' \<and> ((tok_const a \<and> conf_core b) \<or> (conf_core a \<and> conf_refspec b)))"
| "conf_type (Tree d [a, b, c]) = (d = ''type'' \<and> tok_const a \<and> conf_core b \<and> conf_refspec c)"
| "conf_type t = False"
| "conf_core (Tree d [Token tk]) = (d = ''core_type'' \<and> tok_tname (Token tk))"
| "conf_core (Tree d [Tree d1 [tn, lb, tys, rb]]) =
     (d = ''core_type'' \<and> d1 = ''template'' \<and> tok_tname tn \<and> punct ''<'' lb \<and>
      conf_typelist tys \<and> punct ''>'' rb)"
| "conf_core t = False"
| "conf_typelist (Tree d [ty]) = (d = ''typelist'' \<and> conf_type ty)"
| "conf_typelist (Tree d [ty, c, tys]) =
     (d = ''typelist'' \<and> conf_type ty \<and> punct '','' c \<and> conf_typelist tys)"
| "conf_typelist t = False"

text \<open>
  \<^verbatim>\<open>param: type param_name param_defval?\<close>, \<^verbatim>\<open>param_name: CNAME\<close>,
  \<^verbatim>\<open>param_defval: "=" init_value\<close>, \<^verbatim>\<open>init_value\<close>: one token of a default value
\<close>

fun conf_param_name :: "tree \<Rightarrow> bool" where
  "conf_param_name (Tree d [c]) = (d = ''param_name'' \<and> tok_cname c)"
| "conf_param_name t = False"

fun conf_param_defval :: "tree \<Rightarrow> bool" where
  "conf_param_defval (Tree d [eq, Tree d1 [lit]]) =
     (d = ''param_defval'' \<and> punct ''='' eq \<and> d1 = ''init_value'' \<and> tok_literal lit)"
| "conf_param_defval t = False"

fun conf_param :: "tree \<Rightarrow> bool" where
  "conf_param (Tree d [ty, nm]) = (d = ''param'' \<and> conf_type ty \<and> conf_param_name nm)"
| "conf_param (Tree d [ty, nm, dv]) =
     (d = ''param'' \<and> conf_type ty \<and> conf_param_name nm \<and> conf_param_defval dv)"
| "conf_param t = False"

text \<open>\<^verbatim>\<open>params: param | param "," params\<close>\<close>

fun conf_params :: "tree \<Rightarrow> bool" where
  "conf_params (Tree d [p]) = (d = ''params'' \<and> conf_param p)"
| "conf_params (Tree d [p, c, ps]) =
     (d = ''params'' \<and> conf_param p \<and> punct '','' c \<and> conf_params ps)"
| "conf_params t = False"

text \<open>\<^verbatim>\<open>start: type fnname "(" params ")"\<close>, \<^verbatim>\<open>fnname: CNAME\<close>\<close>

fun conforms :: "tree \<Rightarrow> bool" where
  "conforms (Tree d [ty, Tree d1 [nm], lp, ps, rp]) =
     (d = ''start'' \<and> conf_type ty \<and> d1 = ''fnname'' \<and> tok_cname nm \<and> punct ''('' lp \<and>
      conf_params ps \<and> punct '')'' rp)"
| "conforms t = False"







section \<open>The emitter as a function of the token list\<close>



fun step :: "bool \<times> token \<Rightarrow> StringEmit \<Rightarrow> StringEmit" where
  "step (True, tk) e = advance tk e"
| "step (False, tk) e = (if pos e \<ge> 0 then e\<lparr>pos := end_column tk - 1\<rparr> else e\<lparr>pos := -1\<rparr>)"







section \<open>The tree of the rewritten signature\<close>








fun skel :: "tree \<Rightarrow> tree" where
  "skel (Token tk) = Token (tk\<lparr>column := 0, end_column := 0\<rparr>)"
| "skel (Tree d cs) = Tree d (map skel cs)"






section \<open>Election: the loop against a declarative description\<close>

text \<open>
  A parameter is well formed when its type, core type and name can be read.
  \<open>core_is p s\<close>: the core type of \<open>p\<close> is \<open>s\<close>. \<open>primary p\<close>: \<open>p\<close> is a
  \<^verbatim>\<open>Tensor\<close> named \<^verbatim>\<open>self\<close> or const-qualified. \<open>named n p\<close>: \<open>p\<close> has the name \<open>n\<close>.
\<close>

definition param_ok :: "tree \<Rightarrow> bool" where
  "param_ok p = (case bind (param_type p) type_core of
                   Inl e \<Rightarrow> False
                 | Inr c \<Rightarrow> (case param_name (Some p) of Inl e \<Rightarrow> False | Inr n \<Rightarrow> True))"

definition core_is :: "string \<Rightarrow> tree \<Rightarrow> bool" where
  "core_is s p = (bind (param_type p) type_core = Inr s)"

definition named :: "string \<Rightarrow> tree \<Rightarrow> bool" where
  "named n p = (param_name (Some p) = Inr n)"

definition primary :: "tree \<Rightarrow> bool" where
  "primary p = (core_is ''Tensor'' p \<and>
                (named ''self'' p \<or> bind (param_type p) type_is_const = Inr True))"

definition bag_or_list :: "tree \<Rightarrow> bool" where
  "bag_or_list p = (core_is ''TensorOptions'' p \<or> core_is ''TensorList'' p)"

definition or_else :: "'a option \<Rightarrow> 'a option \<Rightarrow> 'a option" where
  "or_else a b = (case a of None \<Rightarrow> b | Some x \<Rightarrow> Some x)"

text \<open>
  The election as the specification words it: the first primary \<^verbatim>\<open>Tensor\<close>, else the
  first \<^verbatim>\<open>TensorOptions\<close> or \<^verbatim>\<open>TensorList\<close>, else the last \<^verbatim>\<open>Tensor\<close>.
\<close>

definition election_as_specified :: "tree list \<Rightarrow> tree option" where
  "election_as_specified ps =
     or_else (find primary ps)
       (or_else (find bag_or_list ps) (find (core_is ''Tensor'') (rev ps)))"

text \<open>
  The election as the loop computes it: the first primary \<^verbatim>\<open>Tensor\<close>, else the last
  \<^verbatim>\<open>Tensor\<close>, else the first \<^verbatim>\<open>TensorOptions\<close> or \<^verbatim>\<open>TensorList\<close>.
\<close>

definition election :: "tree list \<Rightarrow> tree option" where
  "election ps =
     or_else (find primary ps)
       (or_else (find (core_is ''Tensor'') (rev ps)) (find bag_or_list ps))"

text \<open>The parameter an override names, if the override and such a parameter exist.\<close>

definition override_param :: "FuncOpts option \<Rightarrow> tree list \<Rightarrow> tree option" where
  "override_param fnopts ps =
     (case fnopts of
        None \<Rightarrow> None
      | Some fo \<Rightarrow> (case ref_param fo of None \<Rightarrow> None | Some n \<Rightarrow> find (named n) ps))"

text \<open>Tokens and parameters of the examples.\<close>

definition tkn :: "string \<Rightarrow> string \<Rightarrow> int \<Rightarrow> int \<Rightarrow> tree" where
  "tkn ty v c e = Token \<lparr>tok_type = ty, tok_value = v, column = c, end_column = e\<rparr>"

text \<open>
  The parameters of \<^verbatim>\<open>Tensor to(const Tensor & self, Device device, bool copy)\<close>
  in the compact tree.
\<close>

definition ex_to_params :: "tree list" where
  "ex_to_params =
    [Tree ''param''
       [Tree ''type'' [tkn ''CONST'' ''const'' 11 16,
                       Tree ''core_type'' [tkn ''TNAME'' ''Tensor'' 17 23],
                       Tree ''refspec'' [tkn ''REF'' ''&'' 24 25]],
        Tree ''param_name'' [tkn ''CNAME'' ''self'' 26 30]],
     Tree ''param''
       [Tree ''type'' [Tree ''core_type'' [tkn ''TNAME'' ''Device'' 32 38]],
        Tree ''param_name'' [tkn ''CNAME'' ''device'' 39 45]],
     Tree ''param''
       [Tree ''type'' [Tree ''core_type'' [tkn ''TNAME'' ''bool'' 47 51]],
        Tree ''param_name'' [tkn ''CNAME'' ''copy'' 52 56]]]"

text \<open>
  The parameters of \<^verbatim>\<open>Tensor f(TensorOptions options, Tensor other)\<close> in the compact
  tree.
\<close>

definition ex_options_other_params :: "tree list" where
  "ex_options_other_params =
    [Tree ''param''
       [Tree ''type'' [Tree ''core_type'' [tkn ''TNAME'' ''TensorOptions'' 10 23]],
        Tree ''param_name'' [tkn ''CNAME'' ''options'' 24 31]],
     Tree ''param''
       [Tree ''type'' [Tree ''core_type'' [tkn ''TNAME'' ''Tensor'' 33 39]],
        Tree ''param_name'' [tkn ''CNAME'' ''other'' 40 45]]]"



text \<open>
  Example declarations with the trees the two parsers give for them: the compact tree
  (\<open>_tree\<close>), the token-complete tree (\<open>_xtree\<close>), the signature after the namespace
  rewrite (\<open>_rwsig\<close>) and its token-complete tree (\<open>_rwxtree\<close>).
\<close>

definition ex_add_sig :: string where
  "ex_add_sig = ''Tensor add(const Tensor & self, const Tensor & other)''"

definition ex_add_tree :: tree where
  "ex_add_tree =
    Tree ''start''
      [Tree ''type''
         [Tree ''core_type'' [tkn ''TNAME'' ''Tensor'' 1 7]],
       Tree ''fnname'' [tkn ''CNAME'' ''add'' 8 11],
       Tree ''params''
         [Tree ''param''
            [Tree ''type''
               [tkn ''CONST'' ''const'' 12 17,
                Tree ''core_type'' [tkn ''TNAME'' ''Tensor'' 18 24],
                Tree ''refspec'' [tkn ''REF'' ''&'' 25 26]],
             Tree ''param_name'' [tkn ''CNAME'' ''self'' 27 31]],
          Tree ''params''
            [Tree ''param''
               [Tree ''type''
                  [tkn ''CONST'' ''const'' 33 38,
                   Tree ''core_type'' [tkn ''TNAME'' ''Tensor'' 39 45],
                   Tree ''refspec'' [tkn ''REF'' ''&'' 46 47]],
                Tree ''param_name'' [tkn ''CNAME'' ''other'' 48 53]]]]]"

definition ex_add_xtree :: tree where
  "ex_add_xtree =
    Tree ''start''
      [Tree ''type''
         [Tree ''core_type'' [tkn ''TNAME'' ''Tensor'' 1 7]],
       Tree ''fnname'' [tkn ''CNAME'' ''add'' 8 11],
       tkn ''LPAR'' ''('' 11 12,
       Tree ''params''
         [Tree ''param''
            [Tree ''type''
               [tkn ''CONST'' ''const'' 12 17,
                Tree ''core_type'' [tkn ''TNAME'' ''Tensor'' 18 24],
                Tree ''refspec'' [tkn ''REF'' ''&'' 25 26]],
             Tree ''param_name'' [tkn ''CNAME'' ''self'' 27 31]],
          tkn ''COMMA'' '','' 31 32,
          Tree ''params''
            [Tree ''param''
               [Tree ''type''
                  [tkn ''CONST'' ''const'' 33 38,
                   Tree ''core_type'' [tkn ''TNAME'' ''Tensor'' 39 45],
                   Tree ''refspec'' [tkn ''REF'' ''&'' 46 47]],
                Tree ''param_name'' [tkn ''CNAME'' ''other'' 48 53]]]],
       tkn ''RPAR'' '')'' 53 54]"

definition ex_add_rwsig :: string where
  "ex_add_rwsig = ''at::Tensor add(const at::Tensor & self, const at::Tensor & other)''"

definition ex_add_rwxtree :: tree where
  "ex_add_rwxtree =
    Tree ''start''
      [Tree ''type''
         [Tree ''core_type'' [tkn ''TNAME'' ''at::Tensor'' 1 11]],
       Tree ''fnname'' [tkn ''CNAME'' ''add'' 12 15],
       tkn ''LPAR'' ''('' 15 16,
       Tree ''params''
         [Tree ''param''
            [Tree ''type''
               [tkn ''CONST'' ''const'' 16 21,
                Tree ''core_type'' [tkn ''TNAME'' ''at::Tensor'' 22 32],
                Tree ''refspec'' [tkn ''REF'' ''&'' 33 34]],
             Tree ''param_name'' [tkn ''CNAME'' ''self'' 35 39]],
          tkn ''COMMA'' '','' 39 40,
          Tree ''params''
            [Tree ''param''
               [Tree ''type''
                  [tkn ''CONST'' ''const'' 41 46,
                   Tree ''core_type'' [tkn ''TNAME'' ''at::Tensor'' 47 57],
                   Tree ''refspec'' [tkn ''REF'' ''&'' 58 59]],
                Tree ''param_name'' [tkn ''CNAME'' ''other'' 60 65]]]],
       tkn ''RPAR'' '')'' 65 66]"

definition ex_adds_sig :: string where
  "ex_adds_sig = ''Tensor add(const Tensor & self, Scalar other)''"

definition ex_adds_tree :: tree where
  "ex_adds_tree =
    Tree ''start''
      [Tree ''type''
         [Tree ''core_type'' [tkn ''TNAME'' ''Tensor'' 1 7]],
       Tree ''fnname'' [tkn ''CNAME'' ''add'' 8 11],
       Tree ''params''
         [Tree ''param''
            [Tree ''type''
               [tkn ''CONST'' ''const'' 12 17,
                Tree ''core_type'' [tkn ''TNAME'' ''Tensor'' 18 24],
                Tree ''refspec'' [tkn ''REF'' ''&'' 25 26]],
             Tree ''param_name'' [tkn ''CNAME'' ''self'' 27 31]],
          Tree ''params''
            [Tree ''param''
               [Tree ''type''
                  [Tree ''core_type'' [tkn ''TNAME'' ''Scalar'' 33 39]],
                Tree ''param_name'' [tkn ''CNAME'' ''other'' 40 45]]]]]"

definition ex_adds_xtree :: tree where
  "ex_adds_xtree =
    Tree ''start''
      [Tree ''type''
         [Tree ''core_type'' [tkn ''TNAME'' ''Tensor'' 1 7]],
       Tree ''fnname'' [tkn ''CNAME'' ''add'' 8 11],
       tkn ''LPAR'' ''('' 11 12,
       Tree ''params''
         [Tree ''param''
            [Tree ''type''
               [tkn ''CONST'' ''const'' 12 17,
                Tree ''core_type'' [tkn ''TNAME'' ''Tensor'' 18 24],
                Tree ''refspec'' [tkn ''REF'' ''&'' 25 26]],
             Tree ''param_name'' [tkn ''CNAME'' ''self'' 27 31]],
          tkn ''COMMA'' '','' 31 32,
          Tree ''params''
            [Tree ''param''
               [Tree ''type''
                  [Tree ''core_type'' [tkn ''TNAME'' ''Scalar'' 33 39]],
                Tree ''param_name'' [tkn ''CNAME'' ''other'' 40 45]]]],
       tkn ''RPAR'' '')'' 45 46]"

definition ex_adds_rwsig :: string where
  "ex_adds_rwsig = ''at::Tensor add(const at::Tensor & self, at::Scalar other)''"

definition ex_adds_rwxtree :: tree where
  "ex_adds_rwxtree =
    Tree ''start''
      [Tree ''type''
         [Tree ''core_type'' [tkn ''TNAME'' ''at::Tensor'' 1 11]],
       Tree ''fnname'' [tkn ''CNAME'' ''add'' 12 15],
       tkn ''LPAR'' ''('' 15 16,
       Tree ''params''
         [Tree ''param''
            [Tree ''type''
               [tkn ''CONST'' ''const'' 16 21,
                Tree ''core_type'' [tkn ''TNAME'' ''at::Tensor'' 22 32],
                Tree ''refspec'' [tkn ''REF'' ''&'' 33 34]],
             Tree ''param_name'' [tkn ''CNAME'' ''self'' 35 39]],
          tkn ''COMMA'' '','' 39 40,
          Tree ''params''
            [Tree ''param''
               [Tree ''type''
                  [Tree ''core_type'' [tkn ''TNAME'' ''at::Scalar'' 41 51]],
                Tree ''param_name'' [tkn ''CNAME'' ''other'' 52 57]]]],
       tkn ''RPAR'' '')'' 57 58]"

definition ex_addi_sig :: string where
  "ex_addi_sig = ''Tensor & add_(Tensor & self, Scalar other)''"

definition ex_addi_tree :: tree where
  "ex_addi_tree =
    Tree ''start''
      [Tree ''type''
         [Tree ''core_type'' [tkn ''TNAME'' ''Tensor'' 1 7],
          Tree ''refspec'' [tkn ''REF'' ''&'' 8 9]],
       Tree ''fnname'' [tkn ''CNAME'' ''add_'' 10 14],
       Tree ''params''
         [Tree ''param''
            [Tree ''type''
               [Tree ''core_type'' [tkn ''TNAME'' ''Tensor'' 15 21],
                Tree ''refspec'' [tkn ''REF'' ''&'' 22 23]],
             Tree ''param_name'' [tkn ''CNAME'' ''self'' 24 28]],
          Tree ''params''
            [Tree ''param''
               [Tree ''type''
                  [Tree ''core_type'' [tkn ''TNAME'' ''Scalar'' 30 36]],
                Tree ''param_name'' [tkn ''CNAME'' ''other'' 37 42]]]]]"

definition ex_addi_xtree :: tree where
  "ex_addi_xtree =
    Tree ''start''
      [Tree ''type''
         [Tree ''core_type'' [tkn ''TNAME'' ''Tensor'' 1 7],
          Tree ''refspec'' [tkn ''REF'' ''&'' 8 9]],
       Tree ''fnname'' [tkn ''CNAME'' ''add_'' 10 14],
       tkn ''LPAR'' ''('' 14 15,
       Tree ''params''
         [Tree ''param''
            [Tree ''type''
               [Tree ''core_type'' [tkn ''TNAME'' ''Tensor'' 15 21],
                Tree ''refspec'' [tkn ''REF'' ''&'' 22 23]],
             Tree ''param_name'' [tkn ''CNAME'' ''self'' 24 28]],
          tkn ''COMMA'' '','' 28 29,
          Tree ''params''
            [Tree ''param''
               [Tree ''type''
                  [Tree ''core_type'' [tkn ''TNAME'' ''Scalar'' 30 36]],
                Tree ''param_name'' [tkn ''CNAME'' ''other'' 37 42]]]],
       tkn ''RPAR'' '')'' 42 43]"

definition ex_addi_rwsig :: string where
  "ex_addi_rwsig = ''at::Tensor & add_(at::Tensor & self, at::Scalar other)''"

definition ex_addi_rwxtree :: tree where
  "ex_addi_rwxtree =
    Tree ''start''
      [Tree ''type''
         [Tree ''core_type'' [tkn ''TNAME'' ''at::Tensor'' 1 11],
          Tree ''refspec'' [tkn ''REF'' ''&'' 12 13]],
       Tree ''fnname'' [tkn ''CNAME'' ''add_'' 14 18],
       tkn ''LPAR'' ''('' 18 19,
       Tree ''params''
         [Tree ''param''
            [Tree ''type''
               [Tree ''core_type'' [tkn ''TNAME'' ''at::Tensor'' 19 29],
                Tree ''refspec'' [tkn ''REF'' ''&'' 30 31]],
             Tree ''param_name'' [tkn ''CNAME'' ''self'' 32 36]],
          tkn ''COMMA'' '','' 36 37,
          Tree ''params''
            [Tree ''param''
               [Tree ''type''
                  [Tree ''core_type'' [tkn ''TNAME'' ''at::Scalar'' 38 48]],
                Tree ''param_name'' [tkn ''CNAME'' ''other'' 49 54]]]],
       tkn ''RPAR'' '')'' 54 55]"

definition ex_bwd_sig :: string where
  "ex_bwd_sig = ''void backward(Tensor self)''"

definition ex_bwd_tree :: tree where
  "ex_bwd_tree =
    Tree ''start''
      [Tree ''type''
         [Tree ''core_type'' [tkn ''TNAME'' ''void'' 1 5]],
       Tree ''fnname'' [tkn ''CNAME'' ''backward'' 6 14],
       Tree ''params''
         [Tree ''param''
            [Tree ''type''
               [Tree ''core_type'' [tkn ''TNAME'' ''Tensor'' 15 21]],
             Tree ''param_name'' [tkn ''CNAME'' ''self'' 22 26]]]]"

definition ex_bwd_xtree :: tree where
  "ex_bwd_xtree =
    Tree ''start''
      [Tree ''type''
         [Tree ''core_type'' [tkn ''TNAME'' ''void'' 1 5]],
       Tree ''fnname'' [tkn ''CNAME'' ''backward'' 6 14],
       tkn ''LPAR'' ''('' 14 15,
       Tree ''params''
         [Tree ''param''
            [Tree ''type''
               [Tree ''core_type'' [tkn ''TNAME'' ''Tensor'' 15 21]],
             Tree ''param_name'' [tkn ''CNAME'' ''self'' 22 26]]],
       tkn ''RPAR'' '')'' 26 27]"

definition ex_bwd_rwsig :: string where
  "ex_bwd_rwsig = ''void backward(at::Tensor self)''"

definition ex_bwd_rwxtree :: tree where
  "ex_bwd_rwxtree =
    Tree ''start''
      [Tree ''type''
         [Tree ''core_type'' [tkn ''TNAME'' ''void'' 1 5]],
       Tree ''fnname'' [tkn ''CNAME'' ''backward'' 6 14],
       tkn ''LPAR'' ''('' 14 15,
       Tree ''params''
         [Tree ''param''
            [Tree ''type''
               [Tree ''core_type'' [tkn ''TNAME'' ''at::Tensor'' 15 25]],
             Tree ''param_name'' [tkn ''CNAME'' ''self'' 26 30]]],
       tkn ''RPAR'' '')'' 30 31]"

definition ex_f_sig :: string where
  "ex_f_sig = ''Tensor f(int64_t n)''"

definition ex_f_tree :: tree where
  "ex_f_tree =
    Tree ''start''
      [Tree ''type''
         [Tree ''core_type'' [tkn ''TNAME'' ''Tensor'' 1 7]],
       Tree ''fnname'' [tkn ''CNAME'' ''f'' 8 9],
       Tree ''params''
         [Tree ''param''
            [Tree ''type''
               [Tree ''core_type'' [tkn ''TNAME'' ''int64_t'' 10 17]],
             Tree ''param_name'' [tkn ''CNAME'' ''n'' 18 19]]]]"

definition ex_f_xtree :: tree where
  "ex_f_xtree =
    Tree ''start''
      [Tree ''type''
         [Tree ''core_type'' [tkn ''TNAME'' ''Tensor'' 1 7]],
       Tree ''fnname'' [tkn ''CNAME'' ''f'' 8 9],
       tkn ''LPAR'' ''('' 9 10,
       Tree ''params''
         [Tree ''param''
            [Tree ''type''
               [Tree ''core_type'' [tkn ''TNAME'' ''int64_t'' 10 17]],
             Tree ''param_name'' [tkn ''CNAME'' ''n'' 18 19]]],
       tkn ''RPAR'' '')'' 19 20]"

definition ex_f_rwsig :: string where
  "ex_f_rwsig = ''at::Tensor f(int64_t n)''"

definition ex_f_rwxtree :: tree where
  "ex_f_rwxtree =
    Tree ''start''
      [Tree ''type''
         [Tree ''core_type'' [tkn ''TNAME'' ''at::Tensor'' 1 11]],
       Tree ''fnname'' [tkn ''CNAME'' ''f'' 12 13],
       tkn ''LPAR'' ''('' 13 14,
       Tree ''params''
         [Tree ''param''
            [Tree ''type''
               [Tree ''core_type'' [tkn ''TNAME'' ''int64_t'' 14 21]],
             Tree ''param_name'' [tkn ''CNAME'' ''n'' 22 23]]],
       tkn ''RPAR'' '')'' 23 24]"

definition ex_g_sig :: string where
  "ex_g_sig = ''int64_t g(int64_t n)''"

definition ex_g_tree :: tree where
  "ex_g_tree =
    Tree ''start''
      [Tree ''type''
         [Tree ''core_type'' [tkn ''TNAME'' ''int64_t'' 1 8]],
       Tree ''fnname'' [tkn ''CNAME'' ''g'' 9 10],
       Tree ''params''
         [Tree ''param''
            [Tree ''type''
               [Tree ''core_type'' [tkn ''TNAME'' ''int64_t'' 11 18]],
             Tree ''param_name'' [tkn ''CNAME'' ''n'' 19 20]]]]"

definition ex_g_xtree :: tree where
  "ex_g_xtree =
    Tree ''start''
      [Tree ''type''
         [Tree ''core_type'' [tkn ''TNAME'' ''int64_t'' 1 8]],
       Tree ''fnname'' [tkn ''CNAME'' ''g'' 9 10],
       tkn ''LPAR'' ''('' 10 11,
       Tree ''params''
         [Tree ''param''
            [Tree ''type''
               [Tree ''core_type'' [tkn ''TNAME'' ''int64_t'' 11 18]],
             Tree ''param_name'' [tkn ''CNAME'' ''n'' 19 20]]],
       tkn ''RPAR'' '')'' 20 21]"

definition ex_g_rwsig :: string where
  "ex_g_rwsig = ''int64_t g(int64_t n)''"

definition ex_g_rwxtree :: tree where
  "ex_g_rwxtree =
    Tree ''start''
      [Tree ''type''
         [Tree ''core_type'' [tkn ''TNAME'' ''int64_t'' 1 8]],
       Tree ''fnname'' [tkn ''CNAME'' ''g'' 9 10],
       tkn ''LPAR'' ''('' 10 11,
       Tree ''params''
         [Tree ''param''
            [Tree ''type''
               [Tree ''core_type'' [tkn ''TNAME'' ''int64_t'' 11 18]],
             Tree ''param_name'' [tkn ''CNAME'' ''n'' 19 20]]],
       tkn ''RPAR'' '')'' 20 21]"


text \<open>The two parsers on the examples.\<close>

definition ex_parser :: parser where
  "ex_parser = map_of [(ex_add_sig, ex_add_tree),
     (ex_adds_sig, ex_adds_tree),
     (ex_addi_sig, ex_addi_tree),
     (ex_bwd_sig, ex_bwd_tree),
     (ex_f_sig, ex_f_tree),
     (ex_g_sig, ex_g_tree)]"

definition ex_xparser :: parser where
  "ex_xparser = map_of [(ex_add_sig, ex_add_xtree), (ex_add_rwsig, ex_add_rwxtree),
     (ex_adds_sig, ex_adds_xtree), (ex_adds_rwsig, ex_adds_rwxtree),
     (ex_addi_sig, ex_addi_xtree), (ex_addi_rwsig, ex_addi_rwxtree),
     (ex_bwd_sig, ex_bwd_xtree), (ex_bwd_rwsig, ex_bwd_rwxtree),
     (ex_f_sig, ex_f_xtree), (ex_f_rwsig, ex_f_rwxtree),
     (ex_g_sig, ex_g_xtree), (ex_g_rwsig, ex_g_rwxtree)]"

text \<open>
  A run context in flat mode with a fresh overload counter; \<^verbatim>\<open>add\<close> is declared in
  the generic operations, \<^verbatim>\<open>add_\<close> in the native ones.
\<close>

definition ex_ctx :: Context where
  "ex_ctx = \<lparr>gen_class_mode = False, defdb = Map.empty,
     functions_data = ''static inline Tensor add(const Tensor & self, const Tensor & other);'',
     native_functions_data = ''CAFFE2_API Tensor & add_(Tensor & self, Scalar other);''\<rparr>"


















section \<open>Reference-parameter election (C1)\<close>

lemma type_core_const: "type_core ty = Inr c \<Longrightarrow> \<exists>b. type_is_const ty = Inr b"
proof (cases ty)
  case (Token tk)
  assume "type_core ty = Inr c"
  with Token show ?thesis by simp
next
  case (Tree d cs)
  assume tc: "type_core ty = Inr c"
  show ?thesis
  proof (cases cs)
    case Nil
    with Tree tc show ?thesis by simp
  next
    case (Cons x xs)
    with Tree show ?thesis by (cases x) auto
  qed
qed

lemma find_snoc: "find P (xs @ [x]) = or_else (find P xs) (if P x then Some x else None)"
  by (induction xs) (auto simp: or_else_def)

lemma override_param_Cons:
  "param_name (Some p) = Inr n \<Longrightarrow>
   override_param fnopts (p # ps) =
     (if fnopts \<noteq> None \<and> ref_param (the fnopts) = Some n then Some p
      else override_param fnopts ps)"
  by (auto simp: override_param_def named_def split: option.splits)

text \<open>
  The invariant of the loop: with \<open>refp\<close> and \<open>other\<close> as they stand before the
  remaining parameters \<open>ps\<close>, the loop returns the overriding parameter of \<open>ps\<close> if
  there is one, else \<open>refp\<close>, else the first primary parameter of \<open>ps\<close>, else the
  last \<^verbatim>\<open>Tensor\<close> of \<open>ps\<close>, else \<open>other\<close>, else the first options bag or list.
\<close>

lemma get_reference_param_loop_inv:
  "list_all param_ok ps \<Longrightarrow>
   get_reference_param_loop ps fnopts refp other =
     Inr (or_else (override_param fnopts ps)
           (or_else refp (or_else (find primary ps)
              (or_else (find (core_is ''Tensor'') (rev ps))
                 (or_else other (find bag_or_list ps))))))"
proof (induction ps arbitrary: refp other)
  case Nil
  then show ?case by (auto simp: or_else_def override_param_def split: option.splits)
next
  case (Cons p ps)
  from Cons.prems have ok: "param_ok p" and rest: "list_all param_ok ps" by auto
  from ok obtain ty c n where ty: "param_type p = Inr ty" and c: "type_core ty = Inr c"
    and n: "param_name (Some p) = Inr n"
    by (auto simp: param_ok_def bind_def split: sum.splits)
  from type_core_const[OF c] obtain b where b: "type_is_const ty = Inr b" by blast
  note IH = Cons.IH[OF rest]
  have prim: "primary p = (c = ''Tensor'' \<and> (n = ''self'' \<or> b))"
    using ty c n b by (auto simp: primary_def core_is_def named_def bind_def)
  have ten: "core_is ''Tensor'' p = (c = ''Tensor'')"
    using ty c by (auto simp: core_is_def bind_def)
  have bag: "bag_or_list p = (c = ''TensorOptions'' \<or> c = ''TensorList'')"
    using ty c by (auto simp: bag_or_list_def core_is_def bind_def)
  define A where "A = (fnopts \<noteq> None \<and> ref_param (the fnopts) = Some n)"
  have ov: "override_param fnopts (p # ps) = (if A then Some p else override_param fnopts ps)"
    unfolding A_def by (rule override_param_Cons[OF n])
  have step: "get_reference_param_loop (p # ps) fnopts refp other =
     (if A then Inr (Some p)
      else if c \<noteq> ''Tensor''
        then get_reference_param_loop ps fnopts refp
               (if other = None \<and> (c = ''TensorOptions'' \<or> c = ''TensorList'') then Some p else other)
      else if refp = None \<and> n = ''self'' then get_reference_param_loop ps fnopts (Some p) (Some p)
      else if refp = None then get_reference_param_loop ps fnopts (if b then Some p else refp) (Some p)
      else get_reference_param_loop ps fnopts refp (Some p))"
    unfolding A_def by (simp add: ty c n b bind_def Let_def)
  show ?case
    unfolding step ov IH
    by (cases refp; cases other; cases "override_param fnopts ps")
       (auto simp add: prim ten bag find_snoc or_else_def split: option.splits)
qed

lemma ex_to_params_ok: "list_all param_ok ex_to_params"
  by (simp add: ex_to_params_def param_ok_def bind_def tkn_def)

text \<open>
  C1, as amended. For parameters that are well formed, the election returns the first
  parameter an override names, when there is an override and a parameter of that name;
  otherwise the first \<^verbatim>\<open>Tensor\<close> parameter named \<^verbatim>\<open>self\<close> or const-qualified;
  otherwise the last \<^verbatim>\<open>Tensor\<close> parameter; otherwise (no \<^verbatim>\<open>Tensor\<close> parameter at
  all) the first \<^verbatim>\<open>TensorOptions\<close> or \<^verbatim>\<open>TensorList\<close> parameter; otherwise none.
\<close>

theorem get_reference_param_election:
  assumes "list_all param_ok ps"
  shows "get_reference_param ps fnopts = Inr (or_else (override_param fnopts ps) (election ps))"
  unfolding get_reference_param_def election_def
  by (simp add: get_reference_param_loop_inv[OF assms] or_else_def)

text \<open>
  Witness: \<^verbatim>\<open>Tensor to(const Tensor & self, Device device, bool copy)\<close> with an
  override naming \<^verbatim>\<open>device\<close> elects \<^verbatim>\<open>device\<close>, and \<^verbatim>\<open>self\<close> without it.
\<close>

theorem get_reference_param_election_witness:
  "list_all param_ok ex_to_params \<and>
   get_reference_param ex_to_params (Some \<lparr>ref_param = Some ''device''\<rparr>) = Inr (Some (ex_to_params ! 1)) \<and>
   get_reference_param ex_to_params None = Inr (Some (ex_to_params ! 0))"
proof -
  have a: "or_else (override_param (Some \<lparr>ref_param = Some ''device''\<rparr>) ex_to_params)
             (election ex_to_params) = Some (ex_to_params ! 1)"
    by (simp add: ex_to_params_def override_param_def named_def or_else_def tkn_def)
  have b: "or_else (override_param None ex_to_params) (election ex_to_params)
             = Some (ex_to_params ! 0)"
    by (simp add: ex_to_params_def override_param_def named_def or_else_def tkn_def
        election_def primary_def core_is_def bind_def)
  show ?thesis
    using get_reference_param_election[OF ex_to_params_ok, of "Some \<lparr>ref_param = Some ''device''\<rparr>"]
      get_reference_param_election[OF ex_to_params_ok, of None] ex_to_params_ok
    unfolding a b by simp
qed

text \<open>
  Counterexample to C1 as stated: for
  \<^verbatim>\<open>Tensor f(TensorOptions options, Tensor other)\<close> no parameter is primary; the
  specification's order elects \<^verbatim>\<open>options\<close> (the first options bag), the code elects
  \<^verbatim>\<open>other\<close> (the last \<^verbatim>\<open>Tensor\<close>).
\<close>

theorem get_reference_param_order_counterexample:
  "find primary ex_options_other_params = None \<and>
   election_as_specified ex_options_other_params = Some (ex_options_other_params ! 0) \<and>
   get_reference_param ex_options_other_params None = Inr (Some (ex_options_other_params ! 1)) \<and>
   ex_options_other_params ! 0 \<noteq> ex_options_other_params ! 1"
  by (simp add: ex_options_other_params_def election_as_specified_def get_reference_param_def
      primary_def bag_or_list_def core_is_def named_def bind_def or_else_def tkn_def)

section \<open>Wrapper synthesis: what a successful run consists of\<close>

lemma bind_Inr_iff: "bind m f = Inr v \<longleftrightarrow> (\<exists>x. m = Inr x \<and> f x = Inr v)"
  by (cases m) (auto simp: bind_def)

lemma get_xla_wrapper_Some:
  assumes "get_xla_wrapper tb P XP orig_sig ctx = (Inr (Some fg), ctx1)"
  shows "\<exists>a sig fname xfname.
           analyse tb P XP orig_sig = Inr a \<and>
           get_function_signature (an_rwxtree a) (an_rwsig a) gen_fnname ctx
             = (Inr (sig, fname, xfname), ctx1) \<and>
           \<not> is_blacklisted_fn tb fname (an_mapsig a) \<and>
           synthesize tb ctx1 orig_sig a sig fname xfname = Inr fg"
  using assms unfolding get_xla_wrapper_def
  by (auto split: sum.splits prod.splits if_splits)

lemma bindE:
  assumes "bind m f = Inr v"
  obtains x where "m = Inr x" and "f x = Inr v"
  using assms by (cases m) (auto simp: bind_def)

lemma synthesize_code:
  assumes "synthesize tb ctx orig_sig a sig fname xfname = Inr fg"
  obtains code1 pvars tf xref ra ret rtype_str x0 where
    "marshal_params tb fname (an_fnopts a) (an_ref_param a) (an_params a)
             (sig @ '' '' @ (if gen_class_mode ctx then ''const '' else []) @ ''{\<newline>'', [],
              new_TensorFetcher ''xlatens'', x0) = Inr (code1, pvars, tf, xref)"
    "generate_result_assignment (an_tree a) RESULT_NAME = Inr ra"
    "generate_return_stmt (an_tree a) rtype_str fname (result_name ra) (an_params a) pvars
       (an_ref_param a) = Inr ret"
    "fg_code fg = wrapper_code code1 tf ra (get_handling_function tb ctx fname xref) pvars fname ret"
    "fg_func fg = fname" "fg_xfunc fg = xfname" "fg_tree fg = an_tree a"
    "fg_mapsig fg = an_mapsig a"
proof -
  from assms obtain x0 st where
    m: "marshal_params tb fname (an_fnopts a) (an_ref_param a) (an_params a)
             (sig @ '' '' @ (if gen_class_mode ctx then ''const '' else []) @ ''{\<newline>'', [],
              new_TensorFetcher ''xlatens'', x0) = Inr st"
    and r: "(case st of (code1, param_vars, tfetcher, xla_ref_param) \<Rightarrow>
     bind (generate_result_assignment (an_tree a) RESULT_NAME) (\<lambda>result_assign.
     bind (get_return_type_str (an_rwxtree a) (an_rwsig a)) (\<lambda>rtype_str.
     bind (generate_return_stmt (an_tree a) rtype_str fname (result_name result_assign)
             (an_params a) param_vars (an_ref_param a)) (\<lambda>ret.
     bind (create_stdfunc_sig (an_rwxtree a) (an_rwsig a)) (\<lambda>funsig.
       Inr \<lparr>fg_tree = an_tree a, fg_xtree = an_xtree a, fg_rwxtree = an_rwxtree a,
            fg_func = fname, fg_xfunc = xfname,
            fg_code = wrapper_code code1 tfetcher result_assign
                        (get_handling_function tb ctx fname xla_ref_param) param_vars fname ret,
            fg_sig = orig_sig, fg_rwsig = an_rwsig a, fg_cppsig = sig, fg_funsig = funsig,
            fg_mapsig = an_mapsig a\<rparr>))))) = Inr fg"
    unfolding synthesize_def by (elim bindE)
  obtain code1 pvars tf xref where st: "st = (code1, pvars, tf, xref)" by (cases st)
  from r[unfolded st prod.case] obtain ra rtype_str ret funsig where
    ra: "generate_result_assignment (an_tree a) RESULT_NAME = Inr ra"
    and ret: "generate_return_stmt (an_tree a) rtype_str fname (result_name ra) (an_params a) pvars
               (an_ref_param a) = Inr ret"
    and fg: "Inr \<lparr>fg_tree = an_tree a, fg_xtree = an_xtree a, fg_rwxtree = an_rwxtree a,
            fg_func = fname, fg_xfunc = xfname,
            fg_code = wrapper_code code1 tf ra
                        (get_handling_function tb ctx fname xref) pvars fname ret,
            fg_sig = orig_sig, fg_rwsig = an_rwsig a, fg_cppsig = sig, fg_funsig = funsig,
            fg_mapsig = an_mapsig a\<rparr> = (Inr fg :: error + FuncGen)"
    by (elim bindE)
  from fg have "fg_code fg = wrapper_code code1 tf ra (get_handling_function tb ctx fname xref) pvars fname ret"
    "fg_func fg = fname" "fg_xfunc fg = xfname" "fg_tree fg = an_tree a"
    "fg_mapsig fg = an_mapsig a" by auto
  with m[unfolded st] ra ret show thesis by (rule that)
qed

text \<open>The wrapper of \<^verbatim>\<open>Tensor add(const Tensor & self, const Tensor & other)\<close>.\<close>

lemma ex_add_wrapper:
  "(case get_xla_wrapper TABLES ex_parser ex_xparser ex_add_sig ex_ctx of
      (Inr (Some fg), c) \<Rightarrow>
         fg_func fg = ''add'' \<and> fg_xfunc fg = ''xla_add'' \<and> fg_tree fg = ex_add_tree \<and>
         fg_mapsig fg = ''add(Tensor, Tensor) -> Tensor'' \<and> defdb c ''add'' = Some 1 \<and>
         functions_data c = functions_data ex_ctx \<and>
         native_functions_data c = native_functions_data ex_ctx
    | _ \<Rightarrow> False)"
  by code_simp

lemma ex_add_wrapperE:
  obtains fg c where
    "get_xla_wrapper TABLES ex_parser ex_xparser ex_add_sig ex_ctx = (Inr (Some fg), c)"
    "fg_func fg = ''add''" "fg_xfunc fg = ''xla_add''" "fg_tree fg = ex_add_tree"
    "fg_mapsig fg = ''add(Tensor, Tensor) -> Tensor''" "defdb c ''add'' = Some 1"
    "functions_data c = functions_data ex_ctx"
    "native_functions_data c = native_functions_data ex_ctx"
  using ex_add_wrapper by (auto split: prod.splits sum.splits option.splits)




lemma analyse_facts:
  assumes "analyse tb P XP orig_sig = Inr a"
  shows "get_parameters (an_tree a) = Inr (an_params a)"
    and "get_reference_param (an_params a) (function_options tb (an_mapsig a)) = Inr (an_ref_param a)"
    and "an_fnopts a = function_options tb (an_mapsig a)"
    and "P orig_sig = Some (an_tree a)"
    and "XP orig_sig = Some (an_xtree a)"
    and "create_map_sig (an_xtree a) orig_sig = Inr (an_mapsig a)"
    and "rewrite_signature XP orig_sig (type_nsmap tb) = Inr (an_rwsig a)"
    and "XP (an_rwsig a) = Some (an_rwxtree a)"
  using assms unfolding analyse_def parse_def
  by (auto elim!: bindE split: option.splits)

lemma generate_result_assignment_nonvoid:
  assumes "first_child t = Inr rtype" and "type_core rtype = Inr c" and "c \<noteq> ''void''"
  shows "generate_result_assignment t rname = Inr (''auto&& '' @ rname @ '' = '')"
  using assms by (simp add: generate_result_assignment_def bind_def)

lemma generate_return_stmt_Tensor:
  assumes "generate_return_stmt t rtype_str fname rname params pvars refp = Inr ret"
    and "first_child t = Inr rtype" and "type_core rtype = Inr ''Tensor''"
  shows "if type_is_const rtype = Inr True \<or> type_is_refptr rtype ''&'' = Inr True
         then \<exists>n. param_name (Some (hd params)) = Inr n \<and> ret = ''  return '' @ n @ '';\<newline>''
         else \<exists>n. param_name refp = Inr n \<and>
                ret = ''  return bridge::CreateXlaTensor('' @ str_opt rname
                        @ '', bridge::GetXlaDevice('' @ n @ ''));\<newline>''"
proof -
  from assms have ne: "params \<noteq> []" "pvars \<noteq> []"
    and rv: "bind (get_return_value rtype rname (Some (hd params)) (Some (hd pvars)) refp)
               (\<lambda>retstr. Inr (''  return '' @ str_opt retstr @ '';\<newline>'')) = Inr ret"
    by (auto simp: generate_return_stmt_def bind_def split: if_splits)
  from rv obtain v where v: "get_return_value rtype rname (Some (hd params)) (Some (hd pvars)) refp = Inr v"
    and ret: "ret = ''  return '' @ str_opt v @ '';\<newline>''"
    by (elim bindE) auto
  from v obtain c where c: "type_is_const rtype = Inr c"
    unfolding get_return_value_def by (elim bindE) auto
  show ?thesis
  proof (cases c)
    case True
    with v c assms(3) show ?thesis
      unfolding get_return_value_def ret
      by (auto simp: bind_def str_opt_def split: sum.splits)
  next
    case False
    with v c assms(3) obtain r where r: "type_is_refptr rtype ''&'' = Inr r"
      unfolding get_return_value_def by (auto simp: bind_def split: sum.splits)
    with False v c assms(3) show ?thesis
      unfolding get_return_value_def ret
      by (cases r) (auto simp: bind_def str_opt_def split: sum.splits)
  qed
qed

text \<open>
  C4. For a synthesized wrapper whose return type has the core type \<^verbatim>\<open>Tensor\<close>: when
  the return type is const-qualified or a reference, the wrapper's code ends with the
  statement that returns the first parameter by its name; otherwise it ends with the
  statement that wraps \<^verbatim>\<open>x_result\<close> into a new tensor on the device of the elected
  reference parameter.
\<close>

theorem return_value_rule:
  assumes "get_xla_wrapper tb P XP orig_sig ctx = (Inr (Some fg), ctx1)"
    and "first_child (fg_tree fg) = Inr rtype"
    and "type_core rtype = Inr ''Tensor''"
  shows "\<exists>params refp body n.
           get_parameters (fg_tree fg) = Inr params \<and>
           get_reference_param params (function_options tb (fg_mapsig fg)) = Inr refp \<and>
           (if type_is_const rtype = Inr True \<or> type_is_refptr rtype ''&'' = Inr True
            then param_name (Some (hd params)) = Inr n \<and>
                 fg_code fg = body @ ''  return '' @ n @ '';\<newline>}''
            else param_name refp = Inr n \<and>
                 fg_code fg = body @ ''  return bridge::CreateXlaTensor(x_result, bridge::GetXlaDevice(''
                                @ n @ ''));\<newline>}'')"
proof -
  from get_xla_wrapper_Some[OF assms(1)] obtain a sig fname xfname where
    an: "analyse tb P XP orig_sig = Inr a"
    and sy: "synthesize tb ctx1 orig_sig a sig fname xfname = Inr fg" by blast
  from sy obtain code1 pvars tf xref ra ret rtype_str where
    ra: "generate_result_assignment (an_tree a) RESULT_NAME = Inr ra"
    and ret: "generate_return_stmt (an_tree a) rtype_str fname (result_name ra) (an_params a) pvars
       (an_ref_param a) = Inr ret"
    and code: "fg_code fg = wrapper_code code1 tf ra (get_handling_function tb ctx1 fname xref) pvars fname ret"
    and tree: "fg_tree fg = an_tree a" and ms: "fg_mapsig fg = an_mapsig a"
    by (elim synthesize_code)
  have fc: "first_child (an_tree a) = Inr rtype" using assms(2) tree by simp
  have "ra = ''auto&& '' @ RESULT_NAME @ '' = ''"
    using generate_result_assignment_nonvoid[OF fc assms(3), of RESULT_NAME] ra by simp
  then have rn: "str_opt (result_name ra) = ''x_result''"
    by (simp add: result_name_def str_opt_def RESULT_NAME_def)
  define body where "body = code1 @ generate_fetch tf
     @ ''  '' @ ra @ get_handling_function tb ctx1 fname xref @ ''('' @ join '', '' pvars @ '');\<newline>''
     @ (if ra \<noteq> []
        then ''  static_cast<void>('' @ RESULT_NAME @ ''); // Avoid warnings in case not used\<newline>''
        else [])
     @ generate_debug_code fname"
  have code': "fg_code fg = body @ ret @ ''}''"
    unfolding code wrapper_code_def body_def by simp
  note R = generate_return_stmt_Tensor[OF ret fc assms(3), unfolded rn]
  note A = analyse_facts(1,2)[OF an]
  show ?thesis
  proof (cases "type_is_const rtype = Inr True \<or> type_is_refptr rtype ''&'' = Inr True")
    case True
    with R obtain n where "param_name (Some (hd (an_params a))) = Inr n"
      "ret = ''  return '' @ n @ '';\<newline>''" by auto
    with True A show ?thesis
      unfolding tree ms code'
      by (intro exI[of _ "an_params a"] exI[of _ "an_ref_param a"] exI[of _ body] exI[of _ n]) simp
  next
    case False
    with R obtain n where "param_name (an_ref_param a) = Inr n"
      "ret = ''  return bridge::CreateXlaTensor(x_result, bridge::GetXlaDevice('' @ n @ ''));\<newline>''"
      by auto
    with False A show ?thesis
      unfolding tree ms code'
      by (intro exI[of _ "an_params a"] exI[of _ "an_ref_param a"] exI[of _ body] exI[of _ n]) simp
  qed
qed

text \<open>The wrapper of \<^verbatim>\<open>Tensor & add_(Tensor & self, Scalar other)\<close>.\<close>

lemma ex_addi_wrapper:
  "(case get_xla_wrapper TABLES ex_parser ex_xparser ex_addi_sig ex_ctx of
      (Inr (Some fg), c) \<Rightarrow>
         fg_func fg = ''add_'' \<and> fg_xfunc fg = ''xla_add_'' \<and> fg_tree fg = ex_addi_tree \<and>
         fg_mapsig fg = ''add_(Tensor, Scalar) -> Tensor''
    | _ \<Rightarrow> False)"
  by code_simp

lemma ex_addi_wrapperE:
  obtains fg c where
    "get_xla_wrapper TABLES ex_parser ex_xparser ex_addi_sig ex_ctx = (Inr (Some fg), c)"
    "fg_func fg = ''add_''" "fg_xfunc fg = ''xla_add_''" "fg_tree fg = ex_addi_tree"
    "fg_mapsig fg = ''add_(Tensor, Scalar) -> Tensor''"
  using ex_addi_wrapper by (auto split: prod.splits sum.splits option.splits)

text \<open>
  Witness: \<^verbatim>\<open>add\<close> returns a \<^verbatim>\<open>Tensor\<close> by value and its wrapper wraps the result on
  the device of \<^verbatim>\<open>self\<close>, the elected parameter; \<^verbatim>\<open>add_\<close> returns a reference and its
  wrapper returns \<^verbatim>\<open>self\<close>, its first parameter.
\<close>

theorem return_value_rule_witness:
  "(case get_xla_wrapper TABLES ex_parser ex_xparser ex_add_sig ex_ctx of
      (Inr (Some fg), c) \<Rightarrow>
        (\<exists>body. fg_code fg = body @
           ''  return bridge::CreateXlaTensor(x_result, bridge::GetXlaDevice(self));\<newline>}'')
    | _ \<Rightarrow> False) \<and>
   (case get_xla_wrapper TABLES ex_parser ex_xparser ex_addi_sig ex_ctx of
      (Inr (Some fg), c) \<Rightarrow> (\<exists>body. fg_code fg = body @ ''  return self;\<newline>}'')
    | _ \<Rightarrow> False)"
proof -
  obtain fg c where r: "get_xla_wrapper TABLES ex_parser ex_xparser ex_add_sig ex_ctx = (Inr (Some fg), c)"
    and t: "fg_tree fg = ex_add_tree" and m: "fg_mapsig fg = ''add(Tensor, Tensor) -> Tensor''"
    by (rule ex_add_wrapperE)
  define rtype where "rtype = Tree ''type'' [Tree ''core_type'' [tkn ''TNAME'' ''Tensor'' 1 7]]"
  have fc: "first_child (fg_tree fg) = Inr rtype" and tc: "type_core rtype = Inr ''Tensor''"
    and q: "\<not> (type_is_const rtype = Inr True \<or> type_is_refptr rtype ''&'' = Inr True)"
    unfolding t ex_add_tree_def rtype_def by (simp_all add: tkn_def)
  have fo: "function_options TABLES (fg_mapsig fg) = None"
    unfolding m by (simp add: TABLES_def FUNCTION_OPTIONS_def)
  from return_value_rule[OF r fc tc] q obtain params refp body n where
    "get_parameters (fg_tree fg) = Inr params"
    "get_reference_param params (function_options TABLES (fg_mapsig fg)) = Inr refp"
    "param_name refp = Inr n"
    and code: "fg_code fg = body @ ''  return bridge::CreateXlaTensor(x_result, bridge::GetXlaDevice(''
                                @ n @ ''));\<newline>}''"
    by auto
  then have "n = ''self''"
    unfolding t fo ex_add_tree_def get_reference_param_def
    by (auto simp: bind_def tkn_def)
  with code have 1: "\<exists>body. fg_code fg = body @
           ''  return bridge::CreateXlaTensor(x_result, bridge::GetXlaDevice(self));\<newline>}''"
    by auto
  obtain fg' c' where r': "get_xla_wrapper TABLES ex_parser ex_xparser ex_addi_sig ex_ctx = (Inr (Some fg'), c')"
    and t': "fg_tree fg' = ex_addi_tree"
    by (rule ex_addi_wrapperE)
  define rtype' where "rtype' = Tree ''type'' [Tree ''core_type'' [tkn ''TNAME'' ''Tensor'' 1 7],
                                             Tree ''refspec'' [tkn ''REF'' ''&'' 8 9]]"
  have fc': "first_child (fg_tree fg') = Inr rtype'" and tc': "type_core rtype' = Inr ''Tensor''"
    and q': "type_is_const rtype' = Inr True \<or> type_is_refptr rtype' ''&'' = Inr True"
    unfolding t' ex_addi_tree_def rtype'_def by (simp_all add: tkn_def)
  from return_value_rule[OF r' fc' tc'] q' obtain params' body' n' where
    "get_parameters (fg_tree fg') = Inr params'"
    "param_name (Some (hd params')) = Inr n'"
    and code': "fg_code fg' = body' @ ''  return '' @ n' @ '';\<newline>}''"
    by auto
  then have "n' = ''self''"
    unfolding t' ex_addi_tree_def by (auto simp: tkn_def)
  with code' have 2: "\<exists>body. fg_code fg' = body @ ''  return self;\<newline>}''"
    by auto
  from 1 2 r r' show ?thesis by simp
qed

section \<open>The blacklist and the overload counter (C9, C10)\<close>



lemma get_xla_wrapper_not_blacklisted:
  assumes "get_xla_wrapper tb P XP orig_sig ctx = (Inr (Some fg), ctx1)"
  shows "\<not> is_blacklisted_fn tb (fg_func fg) (fg_mapsig fg)"
proof -
  from get_xla_wrapper_Some[OF assms] obtain a sig fname xfname where
    nb: "\<not> is_blacklisted_fn tb fname (an_mapsig a)"
    and sy: "synthesize tb ctx1 orig_sig a sig fname xfname = Inr fg" by blast
  from sy have "fg_func fg = fname" "fg_mapsig fg = an_mapsig a"
    by (elim synthesize_code; simp)+
  with nb show ?thesis by simp
qed

lemma generate_loop_inv:
  assumes "list_all Q fgens"
    and "\<And>ts ctx fg ctx1. get_xla_wrapper tb P XP ts ctx = (Inr (Some fg), ctx1) \<Longrightarrow> Q fg"
  shows "list_all Q (fst (generate_loop tb P XP fndefs ctx fgens))"
  using assms(1)
proof (induction fndefs arbitrary: ctx fgens)
  case Nil
  then show ?case by simp
next
  case (Cons ts fndefs)
  obtain r ctx1 where r: "get_xla_wrapper tb P XP ts ctx = (r, ctx1)" by (cases "get_xla_wrapper tb P XP ts ctx")
  show ?case
  proof (cases r)
    case (Inl e)
    with r Cons show ?thesis by simp
  next
    case (Inr ores)
    show ?thesis
    proof (cases ores)
      case None
      with r Inr Cons show ?thesis by simp
    next
      case (Some fg)
      with r Inr have "Q fg" using assms(2) by blast
      with Cons.prems have "list_all Q (fgens @ [fg])" by simp
      from Cons.IH[OF this] r Inr Some show ?thesis by simp
    qed
  qed
qed


text \<open>
  C9. A signature whose function name or dispatch key the blacklist holds (exactly, or by
  a pattern) is dropped without an error: once the analysis and the declaration of the
  wrapper have been computed, \<^verbatim>\<open>get_xla_wrapper\<close> returns \<^verbatim>\<open>None\<close>. And no record
  that the loop of \<^verbatim>\<open>generate\<close> collects, from which all output is rendered, has a
  blacklisted name or key, whatever the declarations were.
\<close>

theorem blacklisted_signature_dropped:
  "(analyse tb P XP orig_sig = Inr a \<longrightarrow>
    get_function_signature (an_rwxtree a) (an_rwsig a) gen_fnname ctx = (Inr (sg, fname, xfname), ctx1) \<longrightarrow>
    is_blacklisted_fn tb fname (an_mapsig a) \<longrightarrow>
      get_xla_wrapper tb P XP orig_sig ctx = (Inr None, ctx1)) \<and>
   (\<forall>fg \<in> set (fst (generate_loop tb P XP fndefs ctx0 [])).
      \<not> is_blacklisted_fn tb (fg_func fg) (fg_mapsig fg))"
proof -
  have "list_all (\<lambda>fg. \<not> is_blacklisted_fn tb (fg_func fg) (fg_mapsig fg))
          (fst (generate_loop tb P XP fndefs ctx0 []))"
    by (rule generate_loop_inv) (simp_all add: get_xla_wrapper_not_blacklisted)
  then show ?thesis
    by (auto simp: get_xla_wrapper_def list_all_iff)
qed




lemma ex_bwd_run:
  "(case analyse TABLES ex_parser ex_xparser ex_bwd_sig of
      Inr a \<Rightarrow>
        (case get_function_signature (an_rwxtree a) (an_rwsig a) gen_fnname ex_ctx of
           (Inr (sg, fname, xfname), c) \<Rightarrow> fname = ''backward''
         | _ \<Rightarrow> False)
    | _ \<Rightarrow> False)"
  by code_simp

lemma ex_loop:
  "map fg_func (fst (generate_loop TABLES ex_parser ex_xparser [ex_bwd_sig, ex_add_sig] ex_ctx []))
     = [''add'']"
  by code_simp

text \<open>
  Witness: \<^verbatim>\<open>void backward(Tensor self)\<close> gives \<^verbatim>\<open>None\<close>, and the run over
  \<^verbatim>\<open>backward\<close> and \<^verbatim>\<open>add\<close> collects the record of \<^verbatim>\<open>add\<close> only.
\<close>

theorem blacklisted_signature_dropped_witness:
  "fst (get_xla_wrapper TABLES ex_parser ex_xparser ex_bwd_sig ex_ctx) = Inr None \<and>
   list_all (\<lambda>fg. \<not> is_blacklisted_fn TABLES (fg_func fg) (fg_mapsig fg))
     (fst (generate_loop TABLES ex_parser ex_xparser [ex_bwd_sig, ex_add_sig] ex_ctx [])) \<and>
   map fg_func (fst (generate_loop TABLES ex_parser ex_xparser [ex_bwd_sig, ex_add_sig] ex_ctx []))
     = [''add'']"
proof -
  from ex_bwd_run obtain a sg xf c where
    a: "analyse TABLES ex_parser ex_xparser ex_bwd_sig = Inr a"
    and g: "get_function_signature (an_rwxtree a) (an_rwsig a) gen_fnname ex_ctx
              = (Inr (sg, ''backward'', xf), c)"
    by (auto split: sum.splits prod.splits)
  have b: "is_blacklisted_fn TABLES ''backward'' (an_mapsig a)"
    by (simp add: is_blacklisted_fn_def TABLES_def FN_BLACKLIST_def)
  note T = blacklisted_signature_dropped[where tb=TABLES and P=ex_parser and XP=ex_xparser
      and orig_sig=ex_bwd_sig and a=a and ctx=ex_ctx and sg=sg and fname="''backward''"
      and xfname=xf and ?ctx1.0=c and fndefs="[ex_bwd_sig, ex_add_sig]" and ?ctx0.0=ex_ctx]
  from T a g b have 1: "get_xla_wrapper TABLES ex_parser ex_xparser ex_bwd_sig ex_ctx = (Inr None, c)"
    by blast
  from T have 2: "list_all (\<lambda>fg. \<not> is_blacklisted_fn TABLES (fg_func fg) (fg_mapsig fg))
     (fst (generate_loop TABLES ex_parser ex_xparser [ex_bwd_sig, ex_add_sig] ex_ctx []))"
    unfolding list_all_iff by blast
  from 1 2 ex_loop show ?thesis by simp
qed



section \<open>The emitter (C7)\<close>































section \<open>The dispatch key (C3)\<close>
























section \<open>The namespace rewrite (C2)\<close>

subsection \<open>skeleton\<close>

lemma skel_tok:
  "tok_const (skel t) = tok_const t" "tok_tname (skel t) = tok_tname t"
  "tok_cname (skel t) = tok_cname t" "tok_refptr (skel t) = tok_refptr t"
  "punct v (skel t) = punct v t" "tok_literal (skel t) = tok_literal t"
  by (cases t; simp)+

lemma skel_refspec: "conf_refspec (skel t) = conf_refspec t"
  by (induction t rule: conf_refspec.induct) (simp_all add: skel_tok)

lemma skel_type:
  "conf_type (skel t) = conf_type t"
  "conf_core (skel t1) = conf_core t1"
  "conf_typelist (skel t2) = conf_typelist t2"
  by (induction t and t1 and t2 rule: conf_type_conf_core_conf_typelist.induct)
     (simp_all add: skel_tok skel_refspec)

lemma skel_param_name: "conf_param_name (skel t) = conf_param_name t"
  by (induction t rule: conf_param_name.induct) (simp_all add: skel_tok)

lemma skel_param_defval: "conf_param_defval (skel t) = conf_param_defval t"
  by (induction t rule: conf_param_defval.induct) (simp_all add: skel_tok)

lemma skel_param: "conf_param (skel t) = conf_param t"
  by (induction t rule: conf_param.induct)
     (simp_all add: skel_type skel_param_name skel_param_defval)

lemma skel_params: "conf_params (skel t) = conf_params t"
  by (induction t rule: conf_params.induct) (simp_all add: skel_tok skel_param)

lemma skel_conforms: "conforms (skel t) = conforms t"
  by (induction t rule: conforms.induct) (simp_all add: skel_tok skel_type skel_params)

lemma tree_eq_skel:
  "tree_eq a b \<Longrightarrow> skel a = skel b"
  "tree_eq_list as bs \<Longrightarrow> map skel as = map skel bs"
  by (induction a b and as bs rule: tree_eq_tree_eq_list.induct) auto

lemma tree_eq_conforms: "tree_eq a b \<Longrightarrow> conforms b = conforms a"
  using skel_conforms[of a] skel_conforms[of b] tree_eq_skel(1)[of a b] by simp


subsection \<open>the rewritten tree conforms\<close>






















subsection \<open>layout of the emitted text\<close>



lemma emit_fn_rewrite_update: "emit_fn_rewrite (for_every_token_update t g) = emit_fn_rewrite t"
  by (cases t) simp_all









subsection \<open>the tokens of a stripped tree\<close>




subsection \<open>retokening\<close>






















section \<open>Rewriting twice (C8)\<close>












section \<open>Signatures without a reference parameter (C5)\<close>












end
